theory Spec2Isabelle
  imports Complex_Main "HOL-Library.AList"
begin

section \<open>Python values and the library operations tracker.py relies on\<close>

text \<open>
  A session is a Python \<open>Dict[str, Any]\<close>. The values tracker.py itself stores in it are
  \<open>None\<close>, strings, integers and floats. The float type is a type parameter \<open>'f\<close>: the
  operations Python provides on floats are collected in a record, and every function of
  the model takes that record as its first argument. Nothing is assumed about the
  operations, so a theorem about the model holds for IEEE doubles as Python implements
  them.
\<close>

datatype 'f pyval = PNone | PStr string | PInt int | PFloat 'f

datatype pyerr =
  AttributeError | TypeError | ValueError | OverflowError | ZeroDivisionError | KeyError

text \<open>The outcome of comparing a float with zero: \<open>x < 0\<close>, \<open>x == 0\<close>, \<open>x > 0\<close>, or none
  of them (a NaN).\<close>

datatype fsign = Neg | Zero | Pos | NaN

text \<open>What \<open>int(x)\<close> and \<open>round(x)\<close> give on a float: an integer, a ValueError on a NaN,
  an OverflowError on an infinity.\<close>

datatype whole = Whole int | OfNaN | OfInfinity

record 'f float_ops =
  float_of_str :: "string \<Rightarrow> 'f option"     \<comment> \<open>\<open>float(s)\<close>; \<open>None\<close> is its ValueError\<close>
  float_of_int_str :: "int \<Rightarrow> 'f option"    \<comment> \<open>\<open>float(str(i))\<close>; \<open>None\<close> is a ValueError\<close>
  of_pyint :: "int \<Rightarrow> 'f"                    \<comment> \<open>an int operand or literal as a float\<close>
  int_of_float :: "'f \<Rightarrow> whole"              \<comment> \<open>\<open>int(x)\<close>\<close>
  round_int :: "'f \<Rightarrow> whole"                 \<comment> \<open>\<open>round(x)\<close>\<close>
  fadd :: "'f \<Rightarrow> 'f \<Rightarrow> 'f"
  fsub :: "'f \<Rightarrow> 'f \<Rightarrow> 'f"
  fmul :: "'f \<Rightarrow> 'f \<Rightarrow> 'f"
  fdiv :: "'f \<Rightarrow> 'f \<Rightarrow> 'f"                   \<comment> \<open>the quotient, for a divisor that is not zero\<close>
  fround2 :: "'f \<Rightarrow> 'f"                      \<comment> \<open>\<open>round(x, 2)\<close>\<close>
  sign_of :: "'f \<Rightarrow> fsign"

text \<open>\<open>a / b\<close> on floats raises ZeroDivisionError when \<open>b == 0\<close>.\<close>

definition truediv :: "'f float_ops \<Rightarrow> 'f \<Rightarrow> 'f \<Rightarrow> pyerr + 'f" where
  "truediv A a b = (if sign_of A b = Zero then Inl ZeroDivisionError else Inr (fdiv A a b))"

text \<open>\<open>a / n\<close> for a float \<open>a\<close> and an int \<open>n\<close>: the int is converted, and the division
  raises when \<open>n == 0\<close>.\<close>

definition truediv_int :: "'f float_ops \<Rightarrow> 'f \<Rightarrow> int \<Rightarrow> pyerr + 'f" where
  "truediv_int A a n = (if n = 0 then Inl ZeroDivisionError else Inr (fdiv A a (of_pyint A n)))"

text \<open>Truth value of a Python object, as \<open>if v\<close>, \<open>v and w\<close>, \<open>v or w\<close> test it.\<close>

fun truthy :: "'f float_ops \<Rightarrow> 'f pyval \<Rightarrow> bool" where
  "truthy A PNone = False"
| "truthy A (PStr s) = (s \<noteq> [])"
| "truthy A (PInt i) = (i \<noteq> 0)"
| "truthy A (PFloat x) = (sign_of A x \<noteq> Zero)"

subsection \<open>Strings\<close>

text \<open>\<open>s.replace(",", ".")\<close>\<close>

definition replace_comma :: "string \<Rightarrow> string" where
  "replace_comma s = map (\<lambda>c. if c = CHR '','' then CHR ''.'' else c) s"

text \<open>\<open>s.lower()\<close> and \<open>s.upper()\<close> on the ASCII letters; other bytes are kept.\<close>

definition lower_char :: "char \<Rightarrow> char" where
  "lower_char c = (let n = (of_char c :: nat) in
     if 65 \<le> n \<and> n \<le> 90 then char_of (n + 32) else c)"

definition upper_char :: "char \<Rightarrow> char" where
  "upper_char c = (let n = (of_char c :: nat) in
     if 97 \<le> n \<and> n \<le> 122 then char_of (n - 32) else c)"

definition lower :: "string \<Rightarrow> string" where
  "lower s = map lower_char s"

definition upper :: "string \<Rightarrow> string" where
  "upper s = map upper_char s"

text \<open>\<open>v.lower()\<close> on an arbitrary value: only a string has the method.\<close>

fun val_lower :: "'f pyval \<Rightarrow> pyerr + string" where
  "val_lower (PStr s) = Inr (lower s)"
| "val_lower _ = Inl AttributeError"

subsection \<open>Dictionaries\<close>

text \<open>A dict is an association list in insertion order with distinct keys;
  \<open>d[k] = v\<close> is \<open>AList.update\<close>: it replaces the value of an existing key in place and
  appends a new key at the end, as Python does.\<close>

type_synonym 'f session = "(string \<times> 'f pyval) list"

definition dict_get :: "'f session \<Rightarrow> string \<Rightarrow> 'f pyval" where
  \<comment> \<open>\<open>d.get(k)\<close>\<close>
  "dict_get d k = (case map_of d k of None \<Rightarrow> PNone | Some v \<Rightarrow> v)"

definition dict_get_default :: "'f session \<Rightarrow> string \<Rightarrow> 'f pyval \<Rightarrow> 'f pyval" where
  \<comment> \<open>\<open>d.get(k, default)\<close>\<close>
  "dict_get_default d k dflt = (case map_of d k of None \<Rightarrow> dflt | Some v \<Rightarrow> v)"

definition dict_set :: "'f session \<Rightarrow> string \<Rightarrow> 'f pyval \<Rightarrow> 'f session" where
  \<comment> \<open>\<open>d[k] = v\<close>\<close>
  "dict_set d k v = AList.update k v d"

subsection \<open>Timestamps\<close>

text \<open>
  A datetime is a naive local time of second precision, which is what \<open>iso_now\<close> and the
  one-shot entry produce: the number of seconds since the start of day 0 of the proleptic
  Gregorian ordinal (\<open>date.toordinal\<close>), so a date is a day ordinal and the datetime of a
  date \<open>d\<close> at \<open>h:m:s\<close> is \<open>86400 * d + 3600 * h + 60 * m + s\<close>. The text formats belong
  to Python's library and are parameters.
\<close>

record time_lib =
  fromisoformat :: "string \<Rightarrow> int option"       \<comment> \<open>\<open>datetime.fromisoformat\<close>; \<open>None\<close>: ValueError\<close>
  isoformat :: "int \<Rightarrow> string"                  \<comment> \<open>\<open>dt.isoformat()\<close>\<close>
  strptime_date :: "string \<Rightarrow> int option"       \<comment> \<open>\<open>strptime(s, "%Y-%m-%d").date()\<close>, as an ordinal\<close>
  strptime_hm :: "string \<Rightarrow> (int \<times> int) option" \<comment> \<open>\<open>strptime(s, "%H:%M")\<close>: hour and minute\<close>

text \<open>\<open>dt_from_iso(s)\<close>: \<open>datetime.fromisoformat\<close> raises TypeError on a value that is not
  a string and ValueError on a string it cannot read.\<close>

fun dt_from_iso :: "time_lib \<Rightarrow> 'f pyval \<Rightarrow> pyerr + int" where
  "dt_from_iso L (PStr s) = (case fromisoformat L s of None \<Rightarrow> Inl ValueError | Some t \<Rightarrow> Inr t)"
| "dt_from_iso L _ = Inl TypeError"

text \<open>\<open>int(round(secs / 60))\<close> for a whole number of seconds: Python rounds a tie to the
  even neighbour. A tie \<open>q + 1/2\<close> is a float, so the float quotient is on the same side
  of it as the exact one.\<close>

definition round_div60 :: "int \<Rightarrow> int" where
  "round_div60 secs = (let q = secs div 60; r = secs mod 60 in
     if r < 30 then q else if r > 30 then q + 1 else if even q then q else q + 1)"

definition duration_minutes :: "time_lib \<Rightarrow> 'f pyval \<Rightarrow> 'f pyval \<Rightarrow> pyerr + int" where
  "duration_minutes L start_iso end_iso =
     (case dt_from_iso L start_iso of Inl err \<Rightarrow> Inl err | Inr s \<Rightarrow>
       (case dt_from_iso L end_iso of Inl err \<Rightarrow> Inl err | Inr e \<Rightarrow>
          Inr (max (round_div60 (e - s)) 0)))"

section \<open>Computations\<close>

text \<open>\<open>_to_float(v)\<close>. For a float \<open>x\<close>, \<open>str(x)\<close> is the shortest text that reads back
  as \<open>x\<close> and has no comma in it, so \<open>float(str(x).replace(",", "."))\<close> is \<open>x\<close>.\<close>

fun to_float :: "'f float_ops \<Rightarrow> 'f pyval \<Rightarrow> 'f option" where
  "to_float A PNone = None"
| "to_float A (PStr s) = (if s = [] then None else float_of_str A (replace_comma s))"
| "to_float A (PInt i) = float_of_int_str A i"
| "to_float A (PFloat x) = Some x"

text \<open>\<open>_to_int(v)\<close> is \<open>int(float(...))\<close> with the same guards; of what \<open>int\<close> raises only
  the ValueError is caught.\<close>

definition to_int :: "'f float_ops \<Rightarrow> 'f pyval \<Rightarrow> pyerr + int option" where
  "to_int A v =
     (case to_float A v of
        None \<Rightarrow> Inr None
      | Some x \<Rightarrow>
          (case int_of_float A x of
             Whole i \<Rightarrow> Inr (Some i)
           | OfNaN \<Rightarrow> Inr None
           | OfInfinity \<Rightarrow> Inl OverflowError))"

text \<open>The steps of \<open>compute_metrics\<close>, in the order of the source.\<close>

definition is_tourney :: "string \<Rightarrow> bool" where
  \<comment> \<open>\<open>fmt in ("mtt", "spin")\<close>\<close>
  "is_tourney fmt = (fmt = ''mtt'' \<or> fmt = ''spin'')"

definition metrics_duration :: "time_lib \<Rightarrow> 'f float_ops \<Rightarrow> 'f session \<Rightarrow> pyerr + 'f session" where
  "metrics_duration L A session =
     (if dict_get session ''duration_min'' = PStr [] \<or> dict_get session ''duration_min'' = PNone
      then
        (if truthy A (dict_get session ''start_ts'') \<and> truthy A (dict_get session ''end_ts'')
         then
           (case duration_minutes L (dict_get session ''start_ts'') (dict_get session ''end_ts'') of
              Inl err \<Rightarrow> Inl err
            | Inr mins \<Rightarrow> Inr (dict_set session ''duration_min'' (PInt mins)))
         else Inr session)
      else Inr session)"

definition metrics_profit :: "'f float_ops \<Rightarrow> string \<Rightarrow> 'f session \<Rightarrow> 'f session" where
  "metrics_profit A fmt session =
     (let buyin = to_float A (dict_get session ''buyin_total'');
          prize = to_float A (dict_get session ''prize_total'');
          br_s = to_float A (dict_get session ''bankroll_start'');
          br_e = to_float A (dict_get session ''bankroll_end'')
      in if is_tourney fmt \<and> buyin \<noteq> None \<and> prize \<noteq> None
         then dict_set session ''profit'' (PFloat (fround2 A (fsub A (the prize) (the buyin))))
         else if br_s \<noteq> None \<and> br_e \<noteq> None
         then dict_set session ''profit'' (PFloat (fround2 A (fsub A (the br_e) (the br_s))))
         else session)"

definition metrics_cash :: "'f float_ops \<Rightarrow> string \<Rightarrow> 'f session \<Rightarrow> pyerr + 'f session" where
  "metrics_cash A fmt session =
     (if fmt = ''cash'' then
        (case to_int A (dict_get session ''hands'') of
           Inl err \<Rightarrow> Inl err
         | Inr hands \<Rightarrow>
             (case (to_float A (dict_get session ''profit''), to_float A (dict_get session ''bb_value'')) of
                (Some profit, Some bb_value) \<Rightarrow>
                  (if sign_of A bb_value = Pos then
                     (case truediv A profit bb_value of
                        Inl err \<Rightarrow> Inl err
                      | Inr bb_profit \<Rightarrow>
                          (let s1 = dict_set session ''bb_profit'' (PFloat (fround2 A bb_profit)) in
                           case hands of
                             None \<Rightarrow> Inr s1
                           | Some h \<Rightarrow>
                               (if h > 0 then
                                  (case truediv_int A bb_profit h of
                                     Inl err \<Rightarrow> Inl err
                                   | Inr q \<Rightarrow>
                                       Inr (dict_set s1 ''bb_per_100''
                                             (PFloat (fround2 A (fmul A q (of_pyint A 100))))))
                                else Inr s1)))
                   else Inr session)
              | _ \<Rightarrow> Inr session))
      else Inr session)"

definition metrics_roi :: "'f float_ops \<Rightarrow> string \<Rightarrow> 'f option \<Rightarrow> 'f session \<Rightarrow> pyerr + 'f session" where
  "metrics_roi A fmt buyin session =
     (if is_tourney fmt then
        (case (buyin, to_float A (dict_get session ''profit'')) of
           (Some b, Some profit) \<Rightarrow>
             (if sign_of A b = Pos then
                (case truediv A profit b of
                   Inl err \<Rightarrow> Inl err
                 | Inr q \<Rightarrow> Inr (dict_set session ''roi'' (PFloat (fround2 A (fmul A q (of_pyint A 100))))))
              else Inr session)
         | _ \<Rightarrow> Inr session)
      else Inr session)"

text \<open>\<open>for k in (...): if session.get(k) is None: session[k] = ""\<close>\<close>

fun normalize_empties :: "string list \<Rightarrow> 'f session \<Rightarrow> 'f session" where
  "normalize_empties [] session = session"
| "normalize_empties (k # ks) session =
     normalize_empties ks (if dict_get session k = PNone then dict_set session k (PStr []) else session)"

definition compute_metrics :: "time_lib \<Rightarrow> 'f float_ops \<Rightarrow> 'f session \<Rightarrow> pyerr + 'f session" where
  "compute_metrics L A session =
     (case val_lower (dict_get_default session ''format'' (PStr [])) of
        Inl err \<Rightarrow> Inl err
      | Inr fmt \<Rightarrow>
          (let currency = (if truthy A (dict_get_default session ''currency'' (PStr []))
                           then dict_get_default session ''currency'' (PStr []) else PStr [])
           in case metrics_duration L A session of
                Inl err \<Rightarrow> Inl err
              | Inr s1 \<Rightarrow>
                  (let buyin = to_float A (dict_get s1 ''buyin_total'');
                       s2 = metrics_profit A fmt s1
                   in case metrics_cash A fmt s2 of
                        Inl err \<Rightarrow> Inl err
                      | Inr s3 \<Rightarrow>
                          (case metrics_roi A fmt buyin s3 of
                             Inl err \<Rightarrow> Inl err
                           | Inr s4 \<Rightarrow>
                               (let s5 = normalize_empties [''tables'', ''hands''] s4;
                                    s6 = normalize_empties
                                           [''bb_value'', ''bb_profit'', ''bb_per_100'',
                                            ''buyin_total'', ''prize_total'', ''roi''] s5
                                in Inr (dict_set s6 ''currency'' currency))))))"

section \<open>Storage: the active session and the CSV\<close>

text \<open>
  The two files of the tracker: \<open>active_session.json\<close> holds one dict, or is missing (or
  unreadable, which \<open>load_active\<close> reports as \<open>None\<close> too), and \<open>sessions.csv\<close> holds the
  rows appended so far. Writing the rows as text and reading them back is the csv
  module's work and is not modelled: a row is kept as the dict \<open>append_row\<close> builds.
\<close>

record 'f store =
  active_file :: "'f session option"
  csv_rows :: "'f session list"

definition CSV_FIELDS :: "string list" where
  "CSV_FIELDS =
     [''id'', ''poker_room'', ''format'', ''stake'', ''currency'', ''start_ts'', ''end_ts'',
      ''duration_min'', ''bankroll_start'', ''bankroll_end'', ''profit'', ''tables'', ''note'',
      ''hands'', ''bb_value'', ''bb_profit'', ''bb_per_100'',
      ''buyin_total'', ''prize_total'', ''roi'']"

definition FORMATS :: "string list" where
  "FORMATS = [''cash'', ''mtt'', ''spin'']"

definition POKER_ROOM :: string where
  "POKER_ROOM = ''PokerOK''"

definition load_active :: "'f store \<Rightarrow> 'f session option" where
  "load_active st = active_file st"

definition save_active :: "'f store \<Rightarrow> 'f session \<Rightarrow> 'f store" where
  "save_active st d = st\<lparr>active_file := Some d\<rparr>"

definition clear_active :: "'f store \<Rightarrow> 'f store" where
  "clear_active st = st\<lparr>active_file := None\<rparr>"

definition append_row :: "'f store \<Rightarrow> 'f session \<Rightarrow> 'f store" where
  \<comment> \<open>\<open>out = {k: row.get(k, "") for k in CSV_FIELDS}\<close>, written as one more line\<close>
  "append_row st row =
     st\<lparr>csv_rows := csv_rows st @ [map (\<lambda>k. (k, dict_get_default row k (PStr []))) CSV_FIELDS]\<rparr>"

definition read_rows :: "'f store \<Rightarrow> 'f session list" where
  "read_rows st = csv_rows st"

text \<open>\<open>if active:\<close> on what \<open>load_active\<close> returned: \<open>None\<close> and the empty dict are false.\<close>

fun active_present :: "'f session option \<Rightarrow> bool" where
  "active_present None = False"
| "active_present (Some d) = (d \<noteq> [])"

section \<open>Command implementations\<close>

text \<open>
  A command ends by returning 0, by printing an error and returning 2, or with an
  exception nobody catches. The error messages are named after what they report.
  The answers to the prompts are the inputs of a command, with the clock and the fresh
  uuid; the prompt loops themselves (asking again after a bad answer) are not modelled.
\<close>

datatype user_error =
  AlreadyActive | NoActiveSession | InvalidTimeRange | BadDate | BadTime | BadFilter

datatype outcome = Ok | UserError user_error | Raised pyerr

fun exit_status :: "outcome \<Rightarrow> int" where
  "exit_status Ok = 0"
| "exit_status (UserError _) = 2"
| "exit_status (Raised _) = 1"

text \<open>\<open>str(n)\<close> for an integer.\<close>

definition digit_char :: "nat \<Rightarrow> char" where
  "digit_char n = char_of (48 + n)"

function str_of_nat :: "nat \<Rightarrow> string" where
  "str_of_nat n = (if n < 10 then [digit_char n] else str_of_nat (n div 10) @ [digit_char (n mod 10)])"
  by pat_completeness auto
termination
  by (relation "measure id") auto

declare str_of_nat.simps [simp del]


subsection \<open>start\<close>

record 'f start_input =
  s_fmt :: string              \<comment> \<open>\<open>prompt_choice\<close>: one of FORMATS\<close>
  s_stake :: string
  s_currency :: string         \<comment> \<open>as typed; the command upper-cases it\<close>
  s_bankroll_start :: 'f
  s_tables :: "int option"     \<comment> \<open>\<open>None\<close>: the operator declined to give a table count\<close>
  s_note :: string

definition new_draft :: "time_lib \<Rightarrow> int \<Rightarrow> string \<Rightarrow> 'f start_input \<Rightarrow> 'f session" where
  "new_draft L now uuid inp =
     [(''id'', PStr uuid),
      (''poker_room'', PStr POKER_ROOM),
      (''format'', PStr (s_fmt inp)),
      (''stake'', PStr (s_stake inp)),
      (''currency'', PStr (upper (s_currency inp))),
      (''start_ts'', PStr (isoformat L now)),
      (''end_ts'', PStr []),
      (''duration_min'', PStr []),
      (''bankroll_start'', PFloat (s_bankroll_start inp)),
      (''bankroll_end'', PStr []),
      (''profit'', PStr []),
      (''tables'', (case s_tables inp of None \<Rightarrow> PStr [] | Some t \<Rightarrow> PInt t)),
      (''note'', PStr (s_note inp)),
      (''hands'', PStr []),
      (''bb_value'', PStr []),
      (''bb_profit'', PStr []),
      (''bb_per_100'', PStr []),
      (''buyin_total'', PStr []),
      (''prize_total'', PStr []),
      (''roi'', PStr [])]"

definition cmd_start :: "time_lib \<Rightarrow> int \<Rightarrow> string \<Rightarrow> 'f start_input \<Rightarrow> 'f store \<Rightarrow> outcome \<times> 'f store" where
  "cmd_start L now uuid inp st =
     (if active_present (load_active st) then (UserError AlreadyActive, st)
      else (Ok, save_active st (new_draft L now uuid inp)))"

subsection \<open>end\<close>

record 'f end_input =
  e_bankroll_end :: 'f
  e_hands :: "int option"                \<comment> \<open>cash: \<open>None\<close> when declined\<close>
  e_bb_value :: "'f option"              \<comment> \<open>cash: \<open>None\<close> when declined\<close>
  e_buyin_prize :: "('f \<times> 'f) option"    \<comment> \<open>mtt/spin: buy-in total and prize total\<close>
  e_note :: string

definition end_cash_inputs :: "'f float_ops \<Rightarrow> 'f end_input \<Rightarrow> 'f session \<Rightarrow> 'f session" where
  "end_cash_inputs A inp active =
     (let a1 = (case e_hands inp of None \<Rightarrow> active | Some h \<Rightarrow> dict_set active ''hands'' (PInt h))
      in case e_bb_value inp of
           None \<Rightarrow> a1
         | Some b \<Rightarrow> (if sign_of A b = Zero then a1 else dict_set a1 ''bb_value'' (PFloat b)))"

definition end_tourney_inputs :: "'f end_input \<Rightarrow> 'f session \<Rightarrow> 'f session" where
  "end_tourney_inputs inp active =
     (case e_buyin_prize inp of
        None \<Rightarrow> active
      | Some (buyin_total, prize_total) \<Rightarrow>
          dict_set (dict_set active ''buyin_total'' (PFloat buyin_total))
            ''prize_total'' (PFloat prize_total))"

text \<open>\<open>active["note"] = (base_note + " | " if base_note else "") + note_end\<close>, when a
  closing note was typed.\<close>

definition end_note :: "'f float_ops \<Rightarrow> string \<Rightarrow> 'f session \<Rightarrow> pyerr + 'f session" where
  "end_note A note_end active =
     (if note_end = [] then Inr active
      else let base_note = dict_get_default active ''note'' (PStr []) in
        if truthy A base_note then
          (case base_note of
             PStr b \<Rightarrow> Inr (dict_set active ''note'' (PStr (b @ '' | '' @ note_end)))
           | _ \<Rightarrow> Inl TypeError)
        else Inr (dict_set active ''note'' (PStr note_end)))"

text \<open>The chronological check. Whatever the \<open>try\<close> block raises (a missing key, a value
  that is not a string, a string that is not a timestamp) is swallowed by
  \<open>except Exception: pass\<close>, and the check then finds nothing.\<close>

definition end_not_after_start :: "time_lib \<Rightarrow> 'f session \<Rightarrow> bool" where
  "end_not_after_start L active =
     (case map_of active ''end_ts'' of
        None \<Rightarrow> False
      | Some ev \<Rightarrow>
          (case dt_from_iso L ev of
             Inl err \<Rightarrow> False
           | Inr e \<Rightarrow>
               (case map_of active ''start_ts'' of
                  None \<Rightarrow> False
                | Some sv \<Rightarrow>
                    (case dt_from_iso L sv of
                       Inl err \<Rightarrow> False
                     | Inr s \<Rightarrow> e \<le> s))))"

text \<open>The draft after the operator's answers: the format-specific inputs, the closing
  note, \<open>bankroll_end\<close> and the end stamp \<open>iso_now()\<close>. Only the in-memory dict changes
  here; the file is not written.\<close>

definition end_fill :: "time_lib \<Rightarrow> 'f float_ops \<Rightarrow> int \<Rightarrow> 'f end_input \<Rightarrow> string \<Rightarrow> 'f session
    \<Rightarrow> pyerr + 'f session" where
  "end_fill L A now inp fmt active =
     (let a1 = (if fmt = ''cash'' then end_cash_inputs A inp active else active);
          a2 = (if is_tourney fmt then end_tourney_inputs inp a1 else a1)
      in case end_note A (e_note inp) a2 of
           Inl err \<Rightarrow> Inl err
         | Inr a3 \<Rightarrow>
             Inr (dict_set (dict_set a3 ''bankroll_end'' (PFloat (e_bankroll_end inp)))
                    ''end_ts'' (PStr (isoformat L now))))"

definition cmd_end :: "time_lib \<Rightarrow> 'f float_ops \<Rightarrow> int \<Rightarrow> 'f end_input \<Rightarrow> 'f store \<Rightarrow> outcome \<times> 'f store" where
  "cmd_end L A now inp st =
     (case load_active st of
        None \<Rightarrow> (UserError NoActiveSession, st)
      | Some active \<Rightarrow>
          if active = [] then (UserError NoActiveSession, st)
          else
            (case val_lower (if truthy A (dict_get active ''format'')
                             then dict_get active ''format'' else PStr []) of
               Inl err \<Rightarrow> (Raised err, st)
             | Inr fmt \<Rightarrow>
                 (case end_fill L A now inp fmt active of
                    Inl err \<Rightarrow> (Raised err, st)
                  | Inr filled \<Rightarrow>
                      if end_not_after_start L filled then (UserError InvalidTimeRange, st)
                      else
                        (case compute_metrics L A filled of
                           Inl err \<Rightarrow> (Raised err, st)
                         | Inr session \<Rightarrow> (Ok, clear_active (append_row st session))))))"

subsection \<open>log\<close>











subsection \<open>stats\<close>

record stats_args =
  a_from_date :: "string option"
  a_to_date :: "string option"
  a_format :: "string option"

text \<open>The accumulators of the aggregation loop: the two totals and, for each format, the
  dict \<open>ag[f]\<close>.\<close>

record 'f agrec =
  ag_sessions :: int
  ag_profit :: 'f
  ag_minutes :: int
  ag_hands :: int
  ag_bb_profit :: 'f
  ag_buyin :: 'f
  ag_prize :: 'f

record 'f totals =
  total_profit :: 'f
  total_minutes :: int
  ag :: "string \<Rightarrow> 'f agrec"

definition ag_zero :: "'f float_ops \<Rightarrow> 'f agrec" where
  "ag_zero A = \<lparr>ag_sessions = 0, ag_profit = of_pyint A 0, ag_minutes = 0, ag_hands = 0,
                ag_bb_profit = of_pyint A 0, ag_buyin = of_pyint A 0, ag_prize = of_pyint A 0\<rparr>"

definition totals_zero :: "'f float_ops \<Rightarrow> 'f totals" where
  "totals_zero A = \<lparr>total_profit = of_pyint A 0, total_minutes = 0, ag = (\<lambda>f. ag_zero A)\<rparr>"

definition or_zero :: "'f float_ops \<Rightarrow> 'f option \<Rightarrow> 'f" where
  \<comment> \<open>\<open>x or 0.0\<close>\<close>
  "or_zero A x = (case x of None \<Rightarrow> of_pyint A 0
                  | Some v \<Rightarrow> if sign_of A v = Zero then of_pyint A 0 else v)"

definition or_zero_int :: "int option \<Rightarrow> int" where
  \<comment> \<open>\<open>n or 0\<close>\<close>
  "or_zero_int n = (case n of None \<Rightarrow> 0 | Some i \<Rightarrow> i)"

definition row_format :: "'f float_ops \<Rightarrow> 'f session \<Rightarrow> pyerr + string" where
  \<comment> \<open>\<open>(r.get("format") or "").lower()\<close>\<close>
  "row_format A r =
     val_lower (if truthy A (dict_get r ''format'') then dict_get r ''format'' else PStr [])"

text \<open>The three updates of \<open>ag\<close> in the loop body: the counters every known format has,
  the cash columns, and the tournament columns.\<close>

definition ag_add_session :: "'f float_ops \<Rightarrow> string \<Rightarrow> 'f \<Rightarrow> int \<Rightarrow> (string \<Rightarrow> 'f agrec)
    \<Rightarrow> (string \<Rightarrow> 'f agrec)" where
  \<comment> \<open>\<open>if fmt in ag: ag[fmt]["sessions"] += 1; ag[fmt]["profit"] += profit; ...\<close>\<close>
  "ag_add_session A fmt profit dur g =
     (if fmt \<in> set FORMATS
      then g(fmt := (g fmt)\<lparr>ag_sessions := ag_sessions (g fmt) + 1,
                               ag_profit := fadd A (ag_profit (g fmt)) profit,
                               ag_minutes := ag_minutes (g fmt) + dur\<rparr>)
      else g)"

definition ag_add_cash :: "'f float_ops \<Rightarrow> int \<Rightarrow> 'f \<Rightarrow> (string \<Rightarrow> 'f agrec) \<Rightarrow> (string \<Rightarrow> 'f agrec)" where
  \<comment> \<open>\<open>ag["cash"]["hands"] += hands; ag["cash"]["bb_profit"] += bb_profit\<close>\<close>
  "ag_add_cash A hands bb_profit g =
     g(''cash'' := (g ''cash'')\<lparr>ag_hands := ag_hands (g ''cash'') + hands,
                                  ag_bb_profit := fadd A (ag_bb_profit (g ''cash'')) bb_profit\<rparr>)"

definition ag_add_tourney :: "'f float_ops \<Rightarrow> string \<Rightarrow> 'f \<Rightarrow> 'f \<Rightarrow> (string \<Rightarrow> 'f agrec)
    \<Rightarrow> (string \<Rightarrow> 'f agrec)" where
  \<comment> \<open>\<open>ag[fmt]["buyin"] += buyin; ag[fmt]["prize"] += prize\<close>\<close>
  "ag_add_tourney A fmt buyin prize g =
     g(fmt := (g fmt)\<lparr>ag_buyin := fadd A (ag_buyin (g fmt)) buyin,
                         ag_prize := fadd A (ag_prize (g fmt)) prize\<rparr>)"

definition stats_row :: "'f float_ops \<Rightarrow> 'f session \<Rightarrow> 'f totals \<Rightarrow> pyerr + 'f totals" where
  "stats_row A r acc =
     (case row_format A r of
        Inl err \<Rightarrow> Inl err
      | Inr fmt \<Rightarrow>
          (let profit = or_zero A (to_float A (dict_get r ''profit'')) in
           case to_int A (dict_get r ''duration_min'') of
             Inl err \<Rightarrow> Inl err
           | Inr d \<Rightarrow>
               (let dur = or_zero_int d;
                    g2 = ag_add_session A fmt profit dur (ag acc)
                in case (if fmt = ''cash'' then
                           (case to_int A (dict_get r ''hands'') of
                              Inl err \<Rightarrow> Inl err
                            | Inr h \<Rightarrow>
                                Inr (ag_add_cash A (or_zero_int h)
                                       (or_zero A (to_float A (dict_get r ''bb_profit''))) g2))
                         else Inr g2) of
                     Inl err \<Rightarrow> Inl err
                   | Inr g3 \<Rightarrow>
                       Inr \<lparr>total_profit = fadd A (total_profit acc) profit,
                            total_minutes = total_minutes acc + dur,
                            ag = (if is_tourney fmt then
                                    ag_add_tourney A fmt
                                      (or_zero A (to_float A (dict_get r ''buyin_total'')))
                                      (or_zero A (to_float A (dict_get r ''prize_total''))) g3
                                  else g3)\<rparr>)))"

fun stats_loop :: "'f float_ops \<Rightarrow> 'f session list \<Rightarrow> 'f totals \<Rightarrow> pyerr + 'f totals" where
  "stats_loop A [] acc = Inr acc"
| "stats_loop A (r # rs) acc =
     (case stats_row A r acc of Inl err \<Rightarrow> Inl err | Inr acc' \<Rightarrow> stats_loop A rs acc')"

text \<open>The filter loop. A row whose \<open>start_ts\<close> does not parse is dropped; \<open>.lower()\<close> on
  a format that is not a string is outside the \<open>try\<close> and raises.\<close>

fun filter_rows :: "time_lib \<Rightarrow> string option \<Rightarrow> int option \<Rightarrow> int option \<Rightarrow> 'f session list
    \<Rightarrow> pyerr + 'f session list" where
  "filter_rows L fmt_filter from_d to_d [] = Inr []"
| "filter_rows L fmt_filter from_d to_d (r # rs) =
     (case (case fmt_filter of
              None \<Rightarrow> Inr True
            | Some ff \<Rightarrow>
                (if ff = [] then Inr True
                 else (case val_lower (dict_get_default r ''format'' (PStr [])) of
                         Inl err \<Rightarrow> Inl err
                       | Inr f \<Rightarrow> Inr (f = ff)))) of
        Inl err \<Rightarrow> Inl err
      | Inr fmt_ok \<Rightarrow>
          (let keep =
                 (fmt_ok \<and>
                  (case dt_from_iso L (dict_get_default r ''start_ts'' (PStr [])) of
                     Inl err \<Rightarrow> False
                   | Inr t \<Rightarrow>
                       (let d = t div 86400 in
                        \<not> (case from_d of None \<Rightarrow> False | Some fd \<Rightarrow> d < fd) \<and>
                        \<not> (case to_d of None \<Rightarrow> False | Some td \<Rightarrow> d > td))))
           in case filter_rows L fmt_filter from_d to_d rs of
                Inl err \<Rightarrow> Inl err
              | Inr rest \<Rightarrow> Inr (if keep then r # rest else rest)))"

text \<open>What \<open>cmd_stats\<close> prints: the overall figures and one block per format that has
  sessions. A figure printed as \<open>-\<close> is \<open>None\<close>.\<close>

record 'f fmt_line =
  line_format :: string
  line_sessions :: int
  line_profit :: 'f
  line_minutes :: int
  line_pph :: "'f option"
  line_hands :: "int option"
  line_bb100 :: "'f option"
  line_buyin_prize :: "('f \<times> 'f) option"
  line_roi :: "'f option"

record 'f stats_report =
  rep_sessions :: int
  rep_profit :: 'f
  rep_minutes :: int
  rep_avg :: int
  rep_pph :: "'f option"
  rep_breakdown :: "'f fmt_line list"

definition hours_of :: "'f float_ops \<Rightarrow> int \<Rightarrow> 'f" where
  \<comment> \<open>\<open>minutes / 60.0 if minutes else 0.0\<close>\<close>
  "hours_of A minutes =
     (if minutes \<noteq> 0 then fdiv A (of_pyint A minutes) (of_pyint A 60) else of_pyint A 0)"

definition div_if_pos :: "'f float_ops \<Rightarrow> 'f \<Rightarrow> 'f \<Rightarrow> pyerr + 'f option" where
  \<comment> \<open>\<open>a / b if b > 0 else None\<close>\<close>
  "div_if_pos A a b =
     (if sign_of A b = Pos then
        (case truediv A a b of Inl err \<Rightarrow> Inl err | Inr q \<Rightarrow> Inr (Some q))
      else Inr None)"

definition breakdown_line :: "'f float_ops \<Rightarrow> string \<Rightarrow> 'f agrec \<Rightarrow> pyerr + 'f fmt_line" where
  "breakdown_line A f a =
     (case div_if_pos A (ag_profit a) (hours_of A (ag_minutes a)) of
        Inl err \<Rightarrow> Inl err
      | Inr pph_f \<Rightarrow>
          (case (if f = ''cash'' \<and> ag_hands a > 0 then
                   (case truediv_int A (ag_bb_profit a) (ag_hands a) of
                      Inl err \<Rightarrow> Inl err
                    | Inr q \<Rightarrow> Inr (Some (fmul A q (of_pyint A 100))))
                 else Inr None) of
             Inl err \<Rightarrow> Inl err
           | Inr bb100 \<Rightarrow>
               (case (if is_tourney f then
                        (case div_if_pos A (fsub A (ag_prize a) (ag_buyin a)) (ag_buyin a) of
                           Inl err \<Rightarrow> Inl err
                         | Inr None \<Rightarrow> Inr None
                         | Inr (Some q) \<Rightarrow> Inr (Some (fmul A q (of_pyint A 100))))
                      else Inr None) of
                  Inl err \<Rightarrow> Inl err
                | Inr roi \<Rightarrow>
                    Inr \<lparr>line_format = f, line_sessions = ag_sessions a,
                         line_profit = ag_profit a, line_minutes = ag_minutes a,
                         line_pph = pph_f,
                         line_hands = (if f = ''cash'' \<and> ag_hands a > 0 then Some (ag_hands a) else None),
                         line_bb100 = bb100,
                         line_buyin_prize =
                           (if is_tourney f \<and> (sign_of A (ag_buyin a) = Pos \<or> sign_of A (ag_prize a) = Pos)
                            then Some (ag_buyin a, ag_prize a) else None),
                         line_roi = roi\<rparr>)))"

fun breakdown :: "'f float_ops \<Rightarrow> (string \<Rightarrow> 'f agrec) \<Rightarrow> string list \<Rightarrow> pyerr + 'f fmt_line list" where
  "breakdown A g [] = Inr []"
| "breakdown A g (f # fs) =
     (if ag_sessions (g f) = 0 then breakdown A g fs
      else (case breakdown_line A f (g f) of
              Inl err \<Rightarrow> Inl err
            | Inr line \<Rightarrow>
                (case breakdown A g fs of Inl err \<Rightarrow> Inl err | Inr lines \<Rightarrow> Inr (line # lines))))"

definition parse_bound :: "time_lib \<Rightarrow> string option \<Rightarrow> int option option" where
  \<comment> \<open>\<open>--from\<close>/\<open>--to\<close>: unset, or a date; the outer \<open>None\<close> is a date that does not parse\<close>
  "parse_bound L x =
     (case x of
        None \<Rightarrow> Some None
      | Some s \<Rightarrow>
          (if s = [] then Some None
           else (case strptime_date L s of None \<Rightarrow> None | Some d \<Rightarrow> Some (Some d))))"

definition aggregate :: "'f float_ops \<Rightarrow> 'f session list \<Rightarrow> pyerr + 'f stats_report" where
  "aggregate A filt =
     (case stats_loop A filt (totals_zero A) of
        Inl err \<Rightarrow> Inl err
      | Inr t \<Rightarrow>
          (case div_if_pos A (total_profit t) (hours_of A (total_minutes t)) of
             Inl err \<Rightarrow> Inl err
           | Inr pph \<Rightarrow>
               (case round_int A (fdiv A (of_pyint A (total_minutes t)) (of_pyint A (int (length filt)))) of
                  OfNaN \<Rightarrow> Inl ValueError
                | OfInfinity \<Rightarrow> Inl OverflowError
                | Whole avg \<Rightarrow>
                    (case breakdown A (ag t) FORMATS of
                       Inl err \<Rightarrow> Inl err
                     | Inr lines \<Rightarrow>
                         Inr \<lparr>rep_sessions = int (length filt), rep_profit = total_profit t,
                              rep_minutes = total_minutes t, rep_avg = avg, rep_pph = pph,
                              rep_breakdown = lines\<rparr>))))"

definition cmd_stats :: "time_lib \<Rightarrow> 'f float_ops \<Rightarrow> stats_args \<Rightarrow> 'f store
    \<Rightarrow> outcome \<times> 'f stats_report option" where
  "cmd_stats L A args st =
     (if read_rows st = [] then (Ok, None)
      else
        (case parse_bound L (a_from_date args) of
           None \<Rightarrow> (UserError BadFilter, None)
         | Some from_d \<Rightarrow>
             (case parse_bound L (a_to_date args) of
                None \<Rightarrow> (UserError BadFilter, None)
              | Some to_d \<Rightarrow>
                  (let fmt_filter = (case a_format args of
                                       None \<Rightarrow> None
                                     | Some f \<Rightarrow> if f = [] then None else Some (lower f))
                   in if (case fmt_filter of None \<Rightarrow> False | Some ff \<Rightarrow> ff \<notin> set FORMATS)
                      then (UserError BadFilter, None)
                      else
                        (case filter_rows L fmt_filter from_d to_d (read_rows st) of
                           Inl err \<Rightarrow> (Raised err, None)
                         | Inr filt \<Rightarrow>
                             (if filt = [] then (Ok, None)
                              else (case aggregate A filt of
                                      Inl err \<Rightarrow> (Raised err, None)
                                    | Inr rep \<Rightarrow> (Ok, Some rep))))))))"

section \<open>An instance of the library records\<close>

text \<open>
  The model runs once the two library records are given. This instance computes with
  exact decimal fractions in place of binary floats, and reads and writes the canonical
  texts \<open>YYYY-MM-DD\<close>, \<open>HH:MM\<close> and \<open>YYYY-MM-DDTHH:MM:SS\<close>. It serves to evaluate the
  model on examples; the theorems are about every instance.
\<close>

definition digit_val :: "char \<Rightarrow> nat option" where
  "digit_val c = (let n = (of_char c :: nat) in if 48 \<le> n \<and> n \<le> 57 then Some (n - 48) else None)"

fun digits_acc :: "nat \<Rightarrow> string \<Rightarrow> nat option" where
  "digits_acc acc [] = Some acc"
| "digits_acc acc (c # cs) =
     (case digit_val c of None \<Rightarrow> None | Some d \<Rightarrow> digits_acc (10 * acc + d) cs)"

definition nat_of_digits :: "string \<Rightarrow> nat option" where
  "nat_of_digits s = (if s = [] then None else digits_acc 0 s)"

definition unsigned_decimal :: "string \<Rightarrow> rat option" where
  "unsigned_decimal s =
     (let ip = takeWhile (\<lambda>c. c \<noteq> CHR ''.'') s;
          rest = dropWhile (\<lambda>c. c \<noteq> CHR ''.'') s
      in case rest of
           [] \<Rightarrow> map_option of_nat (nat_of_digits ip)
         | dot # fp \<Rightarrow>
             (if ip = [] \<and> fp = [] then None
              else (case (digits_acc 0 ip, digits_acc 0 fp) of
                      (Some i, Some f) \<Rightarrow> Some (of_nat i + of_nat f / 10 ^ length fp)
                    | _ \<Rightarrow> None)))"

definition decimal_of_str :: "string \<Rightarrow> rat option" where
  "decimal_of_str s =
     (if s \<noteq> [] \<and> hd s = CHR ''-'' then map_option uminus (unsigned_decimal (tl s))
      else if s \<noteq> [] \<and> hd s = CHR ''+'' then unsigned_decimal (tl s)
      else unsigned_decimal s)"

definition round_half_even :: "rat \<Rightarrow> int" where
  "round_half_even x =
     (let f = \<lfloor>x\<rfloor>; d = x - of_int f in
      if d < 1 / 2 then f else if d > 1 / 2 then f + 1 else if even f then f else f + 1)"

definition exact_ops :: "rat float_ops" where
  "exact_ops =
     \<lparr>float_of_str = decimal_of_str,
      float_of_int_str = (\<lambda>i. Some (of_int i)),
      of_pyint = of_int,
      int_of_float = (\<lambda>x. Whole (if x < 0 then - \<lfloor>- x\<rfloor> else \<lfloor>x\<rfloor>)),
      round_int = (\<lambda>x. Whole (round_half_even x)),
      fadd = (\<lambda>a b. a + b),
      fsub = (\<lambda>a b. a - b),
      fmul = (\<lambda>a b. a * b),
      fdiv = (\<lambda>a b. a / b),
      fround2 = (\<lambda>x. of_int (round_half_even (x * 100)) / 100),
      sign_of = (\<lambda>x. if x < 0 then Neg else if x = 0 then Zero else Pos)\<rparr>"

text \<open>The proleptic Gregorian calendar, as \<open>datetime.py\<close> computes it.\<close>

definition is_leap :: "int \<Rightarrow> bool" where
  "is_leap y = (y mod 4 = 0 \<and> (y mod 100 \<noteq> 0 \<or> y mod 400 = 0))"

definition days_in_month :: "int \<Rightarrow> int \<Rightarrow> int" where
  "days_in_month y m =
     (if m = 2 then (if is_leap y then 29 else 28)
      else if m = 4 \<or> m = 6 \<or> m = 9 \<or> m = 11 then 30 else 31)"

definition days_before_month :: "int \<Rightarrow> int \<Rightarrow> int" where
  "days_before_month y m = (\<Sum>k \<leftarrow> [1..<nat m]. days_in_month y (int k))"

definition days_before_year :: "int \<Rightarrow> int" where
  "days_before_year y = (y - 1) * 365 + (y - 1) div 4 - (y - 1) div 100 + (y - 1) div 400"

definition ymd2ord :: "int \<Rightarrow> int \<Rightarrow> int \<Rightarrow> int" where
  "ymd2ord y m d = days_before_year y + days_before_month y m + d"

definition ord2ymd :: "int \<Rightarrow> int \<times> int \<times> int" where
  "ord2ymd ordinal =
     (let n0 = ordinal - 1;
          n400 = n0 div 146097; n1 = n0 mod 146097;
          n100 = n1 div 36524; n2 = n1 mod 36524;
          n4 = n2 div 1461; n3 = n2 mod 1461;
          n1y = n3 div 365; n = n3 mod 365;
          year = n400 * 400 + 1 + n100 * 100 + n4 * 4 + n1y
      in if n1y = 4 \<or> n100 = 4 then (year - 1, 12, 31)
         else
           (let month0 = (n + 50) div 32;
                preceding0 = days_before_month year month0;
                month = (if preceding0 > n then month0 - 1 else month0);
                preceding = days_before_month year month
            in (year, month, n - preceding + 1)))"

definition zero_pad :: "nat \<Rightarrow> nat \<Rightarrow> string" where
  "zero_pad w n = (let s = str_of_nat n in replicate (w - length s) CHR ''0'' @ s)"

definition iso_of_seconds :: "int \<Rightarrow> string" where
  "iso_of_seconds t =
     (case ord2ymd (t div 86400) of
        (y, m, d) \<Rightarrow>
          (let r = t mod 86400 in
           zero_pad 4 (nat y) @ ''-'' @ zero_pad 2 (nat m) @ ''-'' @ zero_pad 2 (nat d) @ ''T'' @
           zero_pad 2 (nat (r div 3600)) @ '':'' @ zero_pad 2 (nat (r mod 3600 div 60)) @ '':'' @
           zero_pad 2 (nat (r mod 60))))"

definition date_of_str :: "string \<Rightarrow> int option" where
  "date_of_str s =
     (if length s = 10 \<and> s ! 4 = CHR ''-'' \<and> s ! 7 = CHR ''-'' then
        (case (nat_of_digits (take 4 s), nat_of_digits (take 2 (drop 5 s)), nat_of_digits (drop 8 s)) of
           (Some y, Some m, Some d) \<Rightarrow>
             (if 1 \<le> y \<and> 1 \<le> m \<and> m \<le> 12 \<and> 1 \<le> d \<and> int d \<le> days_in_month (int y) (int m)
              then Some (ymd2ord (int y) (int m) (int d)) else None)
         | _ \<Rightarrow> None)
      else None)"

definition hm_of_str :: "string \<Rightarrow> (int \<times> int) option" where
  "hm_of_str s =
     (let hp = takeWhile (\<lambda>c. c \<noteq> CHR '':'') s;
          rest = dropWhile (\<lambda>c. c \<noteq> CHR '':'') s
      in case rest of
           [] \<Rightarrow> None
         | colon # mp \<Rightarrow>
             (if length hp \<le> 2 \<and> length mp \<le> 2 then
                (case (nat_of_digits hp, nat_of_digits mp) of
                   (Some h, Some m) \<Rightarrow> (if h < 24 \<and> m < 60 then Some (int h, int m) else None)
                 | _ \<Rightarrow> None)
              else None))"

definition seconds_of_iso :: "string \<Rightarrow> int option" where
  "seconds_of_iso s =
     (if length s = 19 \<and> s ! 10 = CHR ''T'' \<and> s ! 13 = CHR '':'' \<and> s ! 16 = CHR '':'' then
        (case (date_of_str (take 10 s), nat_of_digits (take 2 (drop 11 s)),
               nat_of_digits (take 2 (drop 14 s)), nat_of_digits (drop 17 s)) of
           (Some d, Some h, Some m, Some sec) \<Rightarrow>
             (if h < 24 \<and> m < 60 \<and> sec < 60
              then Some (86400 * d + 3600 * int h + 60 * int m + int sec) else None)
         | _ \<Rightarrow> None)
      else None)"

definition iso_lib :: time_lib where
  "iso_lib = \<lparr>fromisoformat = seconds_of_iso, isoformat = iso_of_seconds,
              strptime_date = date_of_str, strptime_hm = hm_of_str\<rparr>"


section \<open>Totals over the filtered records\<close>

text \<open>
  The figures the breakdown is to be compared with, written down independently of the
  aggregation loop: the records of one format, the sum of a column over them (a value
  that is absent or zero counts as \<open>0.0\<close>; the floats are added in the order of the
  records, starting from \<open>0.0\<close>), the sum of their hands, and the two ratios.
\<close>

definition rows_of_format :: "'f float_ops \<Rightarrow> string \<Rightarrow> 'f session list \<Rightarrow> 'f session list" where
  "rows_of_format A f rows = filter (\<lambda>r. row_format A r = Inr f) rows"

definition summed :: "'f float_ops \<Rightarrow> string \<Rightarrow> 'f session list \<Rightarrow> 'f" where
  "summed A key rows =
     foldl (fadd A) (of_pyint A 0) (map (\<lambda>r. or_zero A (to_float A (dict_get r key))) rows)"

definition hands_of :: "'f float_ops \<Rightarrow> 'f session \<Rightarrow> int" where
  "hands_of A r = (case to_int A (dict_get r ''hands'') of Inl err \<Rightarrow> 0 | Inr h \<Rightarrow> or_zero_int h)"

definition summed_hands :: "'f float_ops \<Rightarrow> 'f session list \<Rightarrow> int" where
  "summed_hands A rows = sum_list (map (hands_of A) rows)"

definition roi_of_totals :: "'f float_ops \<Rightarrow> 'f \<Rightarrow> 'f \<Rightarrow> 'f option" where
  \<comment> \<open>\<open>((prize - buyin) / buyin) * 100\<close> when \<open>buyin > 0\<close>\<close>
  "roi_of_totals A buyin prize =
     (if sign_of A buyin = Pos
      then Some (fmul A (fdiv A (fsub A prize buyin) buyin) (of_pyint A 100)) else None)"

definition bb100_of_totals :: "'f float_ops \<Rightarrow> 'f \<Rightarrow> int \<Rightarrow> 'f option" where
  \<comment> \<open>\<open>(bb_profit / hands) * 100\<close> when \<open>hands > 0\<close>\<close>
  "bb100_of_totals A bb_profit hands =
     (if hands > 0
      then Some (fmul A (fdiv A bb_profit (of_pyint A hands)) (of_pyint A 100)) else None)"

section \<open>Example data\<close>

text \<open>A cash session started on 2025-01-01 at 23:30:00 (second 63871457400) with a
  bankroll of 100, and the operator's answers at its end.\<close>

definition example_start :: "rat start_input" where
  "example_start =
     \<lparr>s_fmt = ''cash'', s_stake = ''NL10'', s_currency = ''usd'', s_bankroll_start = 100,
      s_tables = None, s_note = ''evening''\<rparr>"

definition example_draft :: "rat session" where
  "example_draft =
     [(''id'', PStr ''id-1''), (''poker_room'', PStr ''PokerOK''),
      (''format'', PStr ''cash''), (''stake'', PStr ''NL10''),
      (''currency'', PStr ''USD''),
      (''start_ts'', PStr ''2025-01-01T23:30:00''), (''end_ts'', PStr []),
      (''duration_min'', PStr []), (''bankroll_start'', PFloat 100),
      (''bankroll_end'', PStr []), (''profit'', PStr []),
      (''tables'', PStr []), (''note'', PStr ''evening''),
      (''hands'', PStr []), (''bb_value'', PStr []),
      (''bb_profit'', PStr []), (''bb_per_100'', PStr []),
      (''buyin_total'', PStr []), (''prize_total'', PStr []),
      (''roi'', PStr [])]"

definition example_end :: "rat end_input" where
  "example_end =
     \<lparr>e_bankroll_end = 150, e_hands = Some 200, e_bb_value = Some (1 / 10),
      e_buyin_prize = None, e_note = ''done''\<rparr>"

text \<open>The same draft after its \<open>start_ts\<close> was overwritten by hand with a text that is not
  a timestamp, and with a duration filled in.\<close>

definition example_edited_draft :: "rat session" where
  "example_edited_draft =
     dict_set (dict_set example_draft ''start_ts'' (PStr ''last night'')) ''duration_min'' (PInt 45)"


text \<open>Four stored records: two cash sessions of 100 and 300 hands that won 10 and 6 big
  blinds, and two tournament sessions with buy-ins 10 and 20 and prizes 25 and 35. Each
  carries its own \<open>bb_per_100\<close> or \<open>roi\<close>.\<close>

definition example_rows :: "rat session list" where
  "example_rows =
     [[(''format'', PStr ''cash''), (''start_ts'', PStr ''2025-01-01T20:00:00''),
       (''duration_min'', PStr ''60''), (''profit'', PStr ''1.0''),
       (''hands'', PStr ''100''), (''bb_profit'', PStr ''10.0''), (''bb_per_100'', PStr ''10.0'')],
      [(''format'', PStr ''mtt''), (''start_ts'', PStr ''2025-01-02T20:00:00''),
       (''duration_min'', PStr ''90''), (''profit'', PStr ''15.0''),
       (''buyin_total'', PStr ''10.0''), (''prize_total'', PStr ''25.0''), (''roi'', PStr ''150.0'')],
      [(''format'', PStr ''cash''), (''start_ts'', PStr ''2025-01-03T20:00:00''),
       (''duration_min'', PStr ''120''), (''profit'', PStr ''0.6''),
       (''hands'', PStr ''300''), (''bb_profit'', PStr ''6.0''), (''bb_per_100'', PStr ''2.0'')],
      [(''format'', PStr ''mtt''), (''start_ts'', PStr ''2025-01-04T20:00:00''),
       (''duration_min'', PStr ''30''), (''profit'', PStr ''15.0''),
       (''buyin_total'', PStr ''20.0''), (''prize_total'', PStr ''35.0''), (''roi'', PStr ''75.0'')]]"

section \<open>The specification's wording of bb/100\<close>


section \<open>Properties of the metrics engine\<close>

subsection \<open>Reading a dict after the steps of \<open>compute_metrics\<close>\<close>

lemma dict_get_set: "dict_get (dict_set d k v) k' = (if k' = k then v else dict_get d k')"
  by (simp add: dict_get_def dict_set_def update_conv')

lemma dict_get_normalize:
  "dict_get (normalize_empties ks d) k =
     (if k \<in> set ks \<and> dict_get d k = PNone then PStr [] else dict_get d k)"
  by (induction ks arbitrary: d) (auto simp: dict_get_set)

lemma metrics_duration_get:
  "metrics_duration L A s = Inr s' \<Longrightarrow> k \<noteq> ''duration_min'' \<Longrightarrow> dict_get s' k = dict_get s k"
  by (auto simp: metrics_duration_def dict_get_set split: if_splits sum.splits)

lemma metrics_cash_get:
  "metrics_cash A fmt s = Inr s' \<Longrightarrow> k \<noteq> ''bb_profit'' \<Longrightarrow> k \<noteq> ''bb_per_100'' \<Longrightarrow>
     dict_get s' k = dict_get s k"
  by (auto simp: metrics_cash_def dict_get_set Let_def split: if_splits sum.splits option.splits)

lemma metrics_roi_get:
  "metrics_roi A fmt b s = Inr s' \<Longrightarrow> k \<noteq> ''roi'' \<Longrightarrow> dict_get s' k = dict_get s k"
  by (auto simp: metrics_roi_def dict_get_set split: if_splits sum.splits option.splits)

lemma metrics_profit_get:
  "k \<noteq> ''profit'' \<Longrightarrow> dict_get (metrics_profit A fmt s) k = dict_get s k"
  by (auto simp: metrics_profit_def dict_get_set Let_def)

lemma compute_metrics_steps:
  assumes "compute_metrics L A session = Inr out"
  obtains fmt s1 s3 s4 where
    "val_lower (dict_get_default session ''format'' (PStr [])) = Inr fmt"
    "metrics_duration L A session = Inr s1"
    "metrics_cash A fmt (metrics_profit A fmt s1) = Inr s3"
    "metrics_roi A fmt (to_float A (dict_get s1 ''buyin_total'')) s3 = Inr s4"
    "out = dict_set (normalize_empties
             [''bb_value'', ''bb_profit'', ''bb_per_100'', ''buyin_total'', ''prize_total'', ''roi'']
             (normalize_empties [''tables'', ''hands''] s4)) ''currency''
             (if truthy A (dict_get_default session ''currency'' (PStr []))
              then dict_get_default session ''currency'' (PStr []) else PStr [])"
  using assms unfolding compute_metrics_def Let_def
  by (auto split: sum.splits simp del: normalize_empties.simps)

subsection \<open>The profit rule\<close>





subsection \<open>The cash metrics\<close>

lemma out_get:
  assumes "out = dict_set (normalize_empties
             [''bb_value'', ''bb_profit'', ''bb_per_100'', ''buyin_total'', ''prize_total'', ''roi'']
             (normalize_empties [''tables'', ''hands''] s4)) ''currency'' c"
      and "k \<noteq> ''currency''"
  shows "dict_get out k =
     (if k \<in> {''tables'', ''hands'', ''bb_value'', ''bb_profit'', ''bb_per_100'',
               ''buyin_total'', ''prize_total'', ''roi''} \<and> dict_get s4 k = PNone
      then PStr [] else dict_get s4 k)"
  using assms(2) unfolding assms(1) dict_get_set dict_get_normalize by auto




subsection \<open>No division by zero\<close>

lemma dt_from_iso_err: "dt_from_iso L v = Inl e \<Longrightarrow> e = ValueError \<or> e = TypeError"
  by (cases v) (auto split: option.splits)

lemma metrics_duration_err: "metrics_duration L A s = Inl e \<Longrightarrow> e = ValueError \<or> e = TypeError"
  by (auto simp: metrics_duration_def duration_minutes_def split: if_splits sum.splits
           dest: dt_from_iso_err)

lemma to_int_err: "to_int A v = Inl e \<Longrightarrow> e = OverflowError"
  by (auto simp: to_int_def split: option.splits whole.splits)

lemma metrics_cash_err: "metrics_cash A fmt s = Inl e \<Longrightarrow> e = OverflowError"
  by (auto simp: metrics_cash_def truediv_def truediv_int_def Let_def
           split: if_splits sum.splits option.splits dest: to_int_err)

lemma metrics_roi_err: "metrics_roi A fmt b s \<noteq> Inl e"
  by (auto simp: metrics_roi_def truediv_def split: if_splits sum.splits option.splits)

lemma val_lower_err: "val_lower v = Inl e \<Longrightarrow> e = AttributeError"
  by (cases v) auto

lemma compute_metrics_err:
  "compute_metrics L A session = Inl e \<Longrightarrow> e \<in> {AttributeError, ValueError, TypeError, OverflowError}"
  unfolding compute_metrics_def Let_def
  by (auto split: sum.splits simp del: normalize_empties.simps
           dest: val_lower_err metrics_duration_err metrics_cash_err simp: metrics_roi_err)

lemma metrics_cash_no_bb_value:
  assumes "metrics_cash A ''cash'' s = Inr s'"
      and "to_float A (dict_get s ''bb_value'') = None \<or>
           (\<exists>b. to_float A (dict_get s ''bb_value'') = Some b \<and> sign_of A b = Zero)"
  shows "s' = s"
  using assms
  by (auto simp: metrics_cash_def split: sum.splits option.splits if_splits)

lemma metrics_cash_no_hands:
  assumes "metrics_cash A ''cash'' s = Inr s'"
      and "to_int A (dict_get s ''hands'') = Inr None \<or> to_int A (dict_get s ''hands'') = Inr (Some 0)"
  shows "dict_get s' ''bb_per_100'' = dict_get s ''bb_per_100''"
  using assms
  by (auto simp: metrics_cash_def Let_def dict_get_set split: sum.splits option.splits if_splits)

text \<open>
  Claim C6. \<open>compute_metrics\<close> never ends in a ZeroDivisionError, whatever the session.
  For a cash session on which it returns \<open>out\<close>: if \<open>bb_value\<close> is absent (does not read
  as a number) or is zero, then \<open>bb_profit\<close> and \<open>bb_per_100\<close>, when they were absent in
  the input, are the empty value in \<open>out\<close> and not a number; and if \<open>hands\<close> is absent or
  zero, the same holds of \<open>bb_per_100\<close>.
\<close>

theorem C6_bb_value_zero_or_absent:
  "compute_metrics L A session \<noteq> Inl ZeroDivisionError \<and>
   (compute_metrics L A session = Inr out \<longrightarrow>
    val_lower (dict_get_default session ''format'' (PStr [])) = Inr ''cash'' \<longrightarrow>
      ((to_float A (dict_get session ''bb_value'') = None \<or>
        (\<exists>b. to_float A (dict_get session ''bb_value'') = Some b \<and> sign_of A b = Zero)) \<longrightarrow>
         (dict_get session ''bb_profit'' \<in> {PNone, PStr []} \<longrightarrow> dict_get out ''bb_profit'' = PStr []) \<and>
         (dict_get session ''bb_per_100'' \<in> {PNone, PStr []} \<longrightarrow> dict_get out ''bb_per_100'' = PStr [])) \<and>
      ((to_int A (dict_get session ''hands'') = Inr None \<or>
        to_int A (dict_get session ''hands'') = Inr (Some 0)) \<longrightarrow>
         (dict_get session ''bb_per_100'' \<in> {PNone, PStr []} \<longrightarrow> dict_get out ''bb_per_100'' = PStr [])))"
proof -
  have nodiv: "compute_metrics L A session \<noteq> Inl ZeroDivisionError"
    using compute_metrics_err[of L A session ZeroDivisionError] by auto
  have fields:
     "((to_float A (dict_get session ''bb_value'') = None \<or>
        (\<exists>b. to_float A (dict_get session ''bb_value'') = Some b \<and> sign_of A b = Zero)) \<longrightarrow>
         (dict_get session ''bb_profit'' \<in> {PNone, PStr []} \<longrightarrow> dict_get out ''bb_profit'' = PStr []) \<and>
         (dict_get session ''bb_per_100'' \<in> {PNone, PStr []} \<longrightarrow> dict_get out ''bb_per_100'' = PStr [])) \<and>
      ((to_int A (dict_get session ''hands'') = Inr None \<or>
        to_int A (dict_get session ''hands'') = Inr (Some 0)) \<longrightarrow>
         (dict_get session ''bb_per_100'' \<in> {PNone, PStr []} \<longrightarrow> dict_get out ''bb_per_100'' = PStr []))"
    if run: "compute_metrics L A session = Inr out"
      and cash: "val_lower (dict_get_default session ''format'' (PStr [])) = Inr ''cash''"
  proof -
    from run obtain fmt' s1 s3 s4 where st:
      "val_lower (dict_get_default session ''format'' (PStr [])) = Inr fmt'"
      "metrics_duration L A session = Inr s1"
      "metrics_cash A fmt' (metrics_profit A fmt' s1) = Inr s3"
      "metrics_roi A fmt' (to_float A (dict_get s1 ''buyin_total'')) s3 = Inr s4"
      "out = dict_set (normalize_empties
               [''bb_value'', ''bb_profit'', ''bb_per_100'', ''buyin_total'', ''prize_total'', ''roi'']
               (normalize_empties [''tables'', ''hands''] s4)) ''currency''
               (if truthy A (dict_get_default session ''currency'' (PStr []))
                then dict_get_default session ''currency'' (PStr []) else PStr [])"
      by (rule compute_metrics_steps)
    from st(1) cash have fmt: "fmt' = ''cash''" by simp
    let ?s2 = "metrics_profit A ''cash'' s1"
    have s43: "s4 = s3"
      using st(4) by (simp add: metrics_roi_def fmt is_tourney_def)
    have raw: "dict_get ?s2 k = dict_get session k" if "k \<noteq> ''duration_min''" "k \<noteq> ''profit''" for k
      by (simp add: metrics_profit_get[OF that(2)] metrics_duration_get[OF st(2) that(1)])
    have cashstep: "metrics_cash A ''cash'' ?s2 = Inr s3"
      using st(3) fmt by simp
    have o1: "dict_get out ''bb_profit'' =
               (if dict_get s3 ''bb_profit'' = PNone then PStr [] else dict_get s3 ''bb_profit'')"
      by (simp add: out_get[OF st(5)] s43)
    have o2: "dict_get out ''bb_per_100'' =
               (if dict_get s3 ''bb_per_100'' = PNone then PStr [] else dict_get s3 ''bb_per_100'')"
      by (simp add: out_get[OF st(5)] s43)
    have P1a: "dict_get out ''bb_profit'' = PStr []"
      if nb: "to_float A (dict_get session ''bb_value'') = None \<or>
          (\<exists>b. to_float A (dict_get session ''bb_value'') = Some b \<and> sign_of A b = Zero)"
        and a1: "dict_get session ''bb_profit'' \<in> {PNone, PStr []}"
    proof -
      have "s3 = ?s2"
        using metrics_cash_no_bb_value[OF cashstep] nb by (simp add: raw)
      then show ?thesis using a1 by (auto simp: o1 raw)
    qed
    have P1b: "dict_get out ''bb_per_100'' = PStr []"
      if nb: "to_float A (dict_get session ''bb_value'') = None \<or>
          (\<exists>b. to_float A (dict_get session ''bb_value'') = Some b \<and> sign_of A b = Zero)"
        and a2: "dict_get session ''bb_per_100'' \<in> {PNone, PStr []}"
    proof -
      have "s3 = ?s2"
        using metrics_cash_no_bb_value[OF cashstep] nb by (simp add: raw)
      then show ?thesis using a2 by (auto simp: o2 raw)
    qed
    have P2: "dict_get out ''bb_per_100'' = PStr []"
      if nh: "to_int A (dict_get session ''hands'') = Inr None \<or>
              to_int A (dict_get session ''hands'') = Inr (Some 0)"
        and a2: "dict_get session ''bb_per_100'' \<in> {PNone, PStr []}"
    proof -
      have "dict_get s3 ''bb_per_100'' = dict_get ?s2 ''bb_per_100''"
        using metrics_cash_no_hands[OF cashstep] nh by (simp add: raw)
      then show ?thesis using a2 by (auto simp: o2 raw)
    qed
    show ?thesis using P1a P1b P2 by blast
  qed
  show ?thesis using nodiv fields by blast
qed

text \<open>A cash session with a big blind of 0 and 0 hands: the profit is computed, the two
  bb fields stay empty.\<close>

theorem C6_bb_value_zero_or_absent_witness:
  "compute_metrics iso_lib exact_ops
      [(''format'', PStr ''cash''), (''bankroll_start'', PFloat 100), (''bankroll_end'', PFloat 150),
       (''hands'', PInt 0), (''bb_value'', PFloat 0), (''bb_profit'', PStr []), (''bb_per_100'', PStr [])]
    = Inr [(''format'', PStr ''cash''), (''bankroll_start'', PFloat 100),
           (''bankroll_end'', PFloat 150), (''hands'', PInt 0), (''bb_value'', PFloat 0),
           (''bb_profit'', PStr []), (''bb_per_100'', PStr []), (''profit'', PFloat 50),
           (''tables'', PStr []), (''buyin_total'', PStr []), (''prize_total'', PStr []),
           (''roi'', PStr []), (''currency'', PStr [])]
   \<and> dict_get [(''format'', PStr ''cash''), (''bankroll_start'', PFloat 100),
           (''bankroll_end'', PFloat 150), (''hands'', PInt 0), (''bb_value'', PFloat 0),
           (''bb_profit'', PStr []), (''bb_per_100'', PStr []), (''profit'', PFloat (50::rat)),
           (''tables'', PStr []), (''buyin_total'', PStr []), (''prize_total'', PStr []),
           (''roi'', PStr []), (''currency'', PStr [])] ''bb_profit'' = PStr []
   \<and> dict_get [(''format'', PStr ''cash''), (''bankroll_start'', PFloat 100),
           (''bankroll_end'', PFloat 150), (''hands'', PInt 0), (''bb_value'', PFloat 0),
           (''bb_profit'', PStr []), (''bb_per_100'', PStr []), (''profit'', PFloat (50::rat)),
           (''tables'', PStr []), (''buyin_total'', PStr []), (''prize_total'', PStr []),
           (''roi'', PStr []), (''currency'', PStr [])] ''bb_per_100'' = PStr []"
proof -
  let ?s = "[(''format'', PStr ''cash''), (''bankroll_start'', PFloat 100), (''bankroll_end'', PFloat 150),
       (''hands'', PInt 0), (''bb_value'', PFloat 0), (''bb_profit'', PStr []), (''bb_per_100'', PStr [])]
       :: rat session"
  let ?out = "[(''format'', PStr ''cash''), (''bankroll_start'', PFloat 100),
           (''bankroll_end'', PFloat 150), (''hands'', PInt 0), (''bb_value'', PFloat 0),
           (''bb_profit'', PStr []), (''bb_per_100'', PStr []), (''profit'', PFloat 50),
           (''tables'', PStr []), (''buyin_total'', PStr []), (''prize_total'', PStr []),
           (''roi'', PStr []), (''currency'', PStr [])] :: rat session"
  have run: "compute_metrics iso_lib exact_ops ?s = Inr ?out"
    by code_simp
  have cash: "val_lower (dict_get_default ?s ''format'' (PStr [])) = Inr ''cash''"
    by code_simp
  have zero: "to_float exact_ops (dict_get ?s ''bb_value'') = Some 0 \<and> sign_of exact_ops (0::rat) = Zero"
    by code_simp
  have a1: "dict_get ?s ''bb_profit'' \<in> {PNone, PStr []}" and a2: "dict_get ?s ''bb_per_100'' \<in> {PNone, PStr []}"
    by (simp_all add: dict_get_def)
  from C6_bb_value_zero_or_absent[of iso_lib exact_ops ?s ?out] run cash zero a1 a2
  have "dict_get ?out ''bb_profit'' = PStr [] \<and> dict_get ?out ''bb_per_100'' = PStr []"
    by blast
  with run show ?thesis by simp
qed



subsection \<open>Idempotence\<close>

lemma map_of_dict_set: "map_of (dict_set d k v) k' = (if k' = k then Some v else map_of d k')"
  by (simp add: dict_set_def update_conv')

lemma dict_set_same: "map_of d k = Some v \<Longrightarrow> dict_set d k v = d"
  by (simp add: dict_set_def update_triv)

lemma map_of_normalize:
  "map_of (normalize_empties ks d) k =
     (if k \<in> set ks \<and> dict_get d k = PNone then Some (PStr []) else map_of d k)"
  by (induction ks arbitrary: d) (auto simp: map_of_dict_set dict_get_set)

lemma normalize_id: "(\<forall>k\<in>set ks. dict_get d k \<noteq> PNone) \<Longrightarrow> normalize_empties ks d = d"
  by (induction ks arbitrary: d) auto

lemma dict_get_eq: "map_of d k = map_of d' k' \<Longrightarrow> dict_get d k = dict_get d' k'"
  by (simp add: dict_get_def)

lemma metrics_duration_map:
  "metrics_duration L A s = Inr s' \<Longrightarrow> k \<noteq> ''duration_min'' \<Longrightarrow> map_of s' k = map_of s k"
  by (auto simp: metrics_duration_def map_of_dict_set split: if_splits sum.splits)

lemma metrics_cash_map:
  "metrics_cash A fmt s = Inr s' \<Longrightarrow> k \<noteq> ''bb_profit'' \<Longrightarrow> k \<noteq> ''bb_per_100'' \<Longrightarrow>
     map_of s' k = map_of s k"
  by (auto simp: metrics_cash_def map_of_dict_set Let_def split: if_splits sum.splits option.splits)

lemma metrics_roi_map:
  "metrics_roi A fmt b s = Inr s' \<Longrightarrow> k \<noteq> ''roi'' \<Longrightarrow> map_of s' k = map_of s k"
  by (auto simp: metrics_roi_def map_of_dict_set split: if_splits sum.splits option.splits)

lemma metrics_profit_map:
  "k \<noteq> ''profit'' \<Longrightarrow> map_of (metrics_profit A fmt s) k = map_of s k"
  by (auto simp: metrics_profit_def map_of_dict_set Let_def)

lemma to_int_cong: "to_float A v = to_float A w \<Longrightarrow> to_int A v = to_int A w"
  by (simp add: to_int_def)

lemma to_float_none_to_empty: "to_float A (if v = PNone then PStr [] else v) = to_float A v"
  by simp

lemma duration_stable:
  assumes "metrics_duration L A s = Inr s1"
      and "dict_get d ''duration_min'' = dict_get s1 ''duration_min''"
      and "dict_get d ''start_ts'' = dict_get s ''start_ts''"
      and "dict_get d ''end_ts'' = dict_get s ''end_ts''"
  shows "metrics_duration L A d = Inr d"
  using assms
  by (auto simp: metrics_duration_def dict_get_set split: if_splits sum.splits)

lemma profit_stable:
  assumes "to_float A (dict_get d ''buyin_total'') = to_float A (dict_get s ''buyin_total'')"
      and "to_float A (dict_get d ''prize_total'') = to_float A (dict_get s ''prize_total'')"
      and "to_float A (dict_get d ''bankroll_start'') = to_float A (dict_get s ''bankroll_start'')"
      and "to_float A (dict_get d ''bankroll_end'') = to_float A (dict_get s ''bankroll_end'')"
      and "\<And>v. map_of (metrics_profit A fmt s) ''profit'' = Some (PFloat v) \<Longrightarrow>
                 map_of d ''profit'' = Some (PFloat v)"
  shows "metrics_profit A fmt d = d"
proof -
  have "dict_set d ''profit'' (PFloat v) = d"
    if "metrics_profit A fmt s = dict_set s ''profit'' (PFloat v)" for v
    using assms(5)[of v] that by (simp add: map_of_dict_set dict_set_same)
  then show ?thesis
    using assms(1-4) by (auto simp: metrics_profit_def Let_def)
qed

lemma cash_stable:
  assumes step: "metrics_cash A fmt s = Inr s'"
      and "to_float A (dict_get d ''hands'') = to_float A (dict_get s ''hands'')"
      and "to_float A (dict_get d ''profit'') = to_float A (dict_get s ''profit'')"
      and "to_float A (dict_get d ''bb_value'') = to_float A (dict_get s ''bb_value'')"
      and bp: "\<And>v. map_of s' ''bb_profit'' = Some (PFloat v) \<Longrightarrow> map_of d ''bb_profit'' = Some (PFloat v)"
      and b100: "\<And>v. map_of s' ''bb_per_100'' = Some (PFloat v) \<Longrightarrow> map_of d ''bb_per_100'' = Some (PFloat v)"
  shows "metrics_cash A fmt d = Inr d"
proof -
  have hands: "to_int A (dict_get d ''hands'') = to_int A (dict_get s ''hands'')"
    using assms(2) by (rule to_int_cong)
  have one: "dict_set d ''bb_profit'' (PFloat v) = d"
    if "s' = dict_set s ''bb_profit'' (PFloat v)" for v
    using bp[of v] that by (simp add: map_of_dict_set dict_set_same)
  have two: "dict_set (dict_set d ''bb_profit'' (PFloat v)) ''bb_per_100'' (PFloat w) = d"
    if "s' = dict_set (dict_set s ''bb_profit'' (PFloat v)) ''bb_per_100'' (PFloat w)" for v w
    using bp[of v] b100[of w] that by (simp add: map_of_dict_set dict_set_same)
  show ?thesis
    using step hands assms(3,4) one two
    by (auto simp: metrics_cash_def Let_def split: if_splits sum.splits option.splits)
qed

lemma roi_stable:
  assumes step: "metrics_roi A fmt b s = Inr s'"
      and "to_float A (dict_get d ''profit'') = to_float A (dict_get s ''profit'')"
      and r: "\<And>v. map_of s' ''roi'' = Some (PFloat v) \<Longrightarrow> map_of d ''roi'' = Some (PFloat v)"
  shows "metrics_roi A fmt b d = Inr d"
proof -
  have one: "dict_set d ''roi'' (PFloat v) = d" if "s' = dict_set s ''roi'' (PFloat v)" for v
    using r[of v] that by (simp add: map_of_dict_set dict_set_same)
  show ?thesis
    using step assms(2) one
    by (auto simp: metrics_roi_def split: if_splits sum.splits option.splits)
qed

lemma out_map:
  assumes "out = dict_set (normalize_empties
             [''bb_value'', ''bb_profit'', ''bb_per_100'', ''buyin_total'', ''prize_total'', ''roi'']
             (normalize_empties [''tables'', ''hands''] s4)) ''currency'' c"
      and "k \<noteq> ''currency''"
  shows "map_of out k =
     (if k \<in> {''tables'', ''hands'', ''bb_value'', ''bb_profit'', ''bb_per_100'',
               ''buyin_total'', ''prize_total'', ''roi''} \<and> dict_get s4 k = PNone
      then Some (PStr []) else map_of s4 k)"
  using assms(2) unfolding assms(1) map_of_dict_set map_of_normalize dict_get_normalize by auto

lemma out_to_float:
  assumes "out = dict_set (normalize_empties
             [''bb_value'', ''bb_profit'', ''bb_per_100'', ''buyin_total'', ''prize_total'', ''roi'']
             (normalize_empties [''tables'', ''hands''] s4)) ''currency'' c"
      and "k \<noteq> ''currency''"
  shows "to_float A (dict_get out k) = to_float A (dict_get s4 k)"
  unfolding out_get[OF assms] by simp

lemma out_float_kept:
  assumes "out = dict_set (normalize_empties
             [''bb_value'', ''bb_profit'', ''bb_per_100'', ''buyin_total'', ''prize_total'', ''roi'']
             (normalize_empties [''tables'', ''hands''] s4)) ''currency'' c"
      and "k \<noteq> ''currency''" and "map_of s4 k = Some (PFloat v)"
  shows "map_of out k = Some (PFloat v)"
  unfolding out_map[OF assms(1,2)] using assms(3) by (simp add: dict_get_def)

text \<open>
  Claim C9. When \<open>compute_metrics\<close> returns \<open>out\<close> for a session, it returns the same
  \<open>out\<close> for \<open>out\<close>: every derived field, the normalised empty fields and the currency
  are unchanged by a second application, key by key and in the same order.
\<close>

theorem C9_compute_metrics_idempotent:
  assumes run: "compute_metrics L A session = Inr out"
  shows "compute_metrics L A out = Inr out"
proof -
  define c where "c = (if truthy A (dict_get_default session ''currency'' (PStr []))
              then dict_get_default session ''currency'' (PStr []) else PStr [])"
  from run obtain fmt s1 s3 s4 where st:
    "val_lower (dict_get_default session ''format'' (PStr [])) = Inr fmt"
    "metrics_duration L A session = Inr s1"
    "metrics_cash A fmt (metrics_profit A fmt s1) = Inr s3"
    "metrics_roi A fmt (to_float A (dict_get s1 ''buyin_total'')) s3 = Inr s4"
    "out = dict_set (normalize_empties
             [''bb_value'', ''bb_profit'', ''bb_per_100'', ''buyin_total'', ''prize_total'', ''roi'']
             (normalize_empties [''tables'', ''hands''] s4)) ''currency'' c"
    unfolding c_def by (rule compute_metrics_steps)
  let ?s2 = "metrics_profit A fmt s1"
  note om = out_map[OF st(5)] and og = out_get[OF st(5)] and otf = out_to_float[OF st(5)]
    and okept = out_float_kept[OF st(5)]
  \<comment> \<open>the format and the currency read the same\<close>
  have "map_of out ''format'' = map_of session ''format''"
    using metrics_roi_map[OF st(4), of "''format''"] metrics_cash_map[OF st(3), of "''format''"]
      metrics_profit_map[of "''format''" A fmt s1] metrics_duration_map[OF st(2), of "''format''"]
    by (simp add: om)
  then have f1: "val_lower (dict_get_default out ''format'' (PStr [])) = Inr fmt"
    using st(1) by (simp add: dict_get_default_def)
  have cur: "map_of out ''currency'' = Some c"
    by (simp add: st(5) map_of_dict_set)
  have f2: "(if truthy A (dict_get_default out ''currency'' (PStr []))
             then dict_get_default out ''currency'' (PStr []) else PStr []) = c"
    using cur by (auto simp: dict_get_default_def c_def)
  \<comment> \<open>the duration step finds its own result\<close>
  have g4: "dict_get s4 k = dict_get ?s2 k" if "k \<noteq> ''roi''" "k \<noteq> ''bb_profit''" "k \<noteq> ''bb_per_100''" for k
    using metrics_roi_get[OF st(4) that(1)] metrics_cash_get[OF st(3) that(2,3)] by simp
  have g2: "dict_get ?s2 k = dict_get s1 k" if "k \<noteq> ''profit''" for k
    by (rule metrics_profit_get[OF that])
  have g1: "dict_get s1 k = dict_get session k" if "k \<noteq> ''duration_min''" for k
    by (rule metrics_duration_get[OF st(2) that])
  have f3: "metrics_duration L A out = Inr out"
  proof (rule duration_stable[OF st(2)])
    show "dict_get out ''duration_min'' = dict_get s1 ''duration_min''"
      by (simp add: og g4 g2)
    show "dict_get out ''start_ts'' = dict_get session ''start_ts''"
      by (simp add: og g4 g2 g1)
    show "dict_get out ''end_ts'' = dict_get session ''end_ts''"
      by (simp add: og g4 g2 g1)
  qed
  \<comment> \<open>the profit step\<close>
  have f4: "metrics_profit A fmt out = out"
  proof (rule profit_stable[where s = s1])
    show "to_float A (dict_get out ''buyin_total'') = to_float A (dict_get s1 ''buyin_total'')"
      by (simp add: otf g4 g2)
    show "to_float A (dict_get out ''prize_total'') = to_float A (dict_get s1 ''prize_total'')"
      by (simp add: otf g4 g2)
    show "to_float A (dict_get out ''bankroll_start'') = to_float A (dict_get s1 ''bankroll_start'')"
      by (simp add: otf g4 g2)
    show "to_float A (dict_get out ''bankroll_end'') = to_float A (dict_get s1 ''bankroll_end'')"
      by (simp add: otf g4 g2)
    fix v assume "map_of ?s2 ''profit'' = Some (PFloat v)"
    then have "map_of s4 ''profit'' = Some (PFloat v)"
      using metrics_roi_map[OF st(4), of "''profit''"] metrics_cash_map[OF st(3), of "''profit''"]
      by simp
    then show "map_of out ''profit'' = Some (PFloat v)"
      by (intro okept) simp_all
  qed
  \<comment> \<open>the cash step\<close>
  have f5: "metrics_cash A fmt out = Inr out"
  proof (rule cash_stable[OF st(3)])
    show "to_float A (dict_get out ''hands'') = to_float A (dict_get ?s2 ''hands'')"
      by (simp add: otf g4)
    show "to_float A (dict_get out ''profit'') = to_float A (dict_get ?s2 ''profit'')"
      by (simp add: otf g4)
    show "to_float A (dict_get out ''bb_value'') = to_float A (dict_get ?s2 ''bb_value'')"
      by (simp add: otf g4)
    show "map_of out ''bb_profit'' = Some (PFloat v)" if "map_of s3 ''bb_profit'' = Some (PFloat v)" for v
      using that metrics_roi_map[OF st(4), of "''bb_profit''"] by (intro okept) simp_all
    show "map_of out ''bb_per_100'' = Some (PFloat v)" if "map_of s3 ''bb_per_100'' = Some (PFloat v)" for v
      using that metrics_roi_map[OF st(4), of "''bb_per_100''"] by (intro okept) simp_all
  qed
  \<comment> \<open>the ROI step\<close>
  have b: "to_float A (dict_get out ''buyin_total'') = to_float A (dict_get s1 ''buyin_total'')"
    by (simp add: otf g4 g2)
  have f6: "metrics_roi A fmt (to_float A (dict_get out ''buyin_total'')) out = Inr out"
    unfolding b
  proof (rule roi_stable[OF st(4)])
    show "to_float A (dict_get out ''profit'') = to_float A (dict_get s3 ''profit'')"
      using metrics_roi_get[OF st(4), of "''profit''"] by (simp add: otf)
    show "map_of out ''roi'' = Some (PFloat v)" if "map_of s4 ''roi'' = Some (PFloat v)" for v
      using that by (intro okept) simp_all
  qed
  \<comment> \<open>nothing is left to normalise\<close>
  have f7: "normalize_empties [''tables'', ''hands''] out = out"
    by (rule normalize_id) (simp add: og)
  have f8: "normalize_empties
             [''bb_value'', ''bb_profit'', ''bb_per_100'', ''buyin_total'', ''prize_total'', ''roi''] out = out"
    by (rule normalize_id) (simp add: og)
  have f9: "dict_set out ''currency'' c = out"
    using cur by (rule dict_set_same)
  show ?thesis
    by (simp add: compute_metrics_def Let_def f1 f2 f3 f4 f5 f6 f7 f8 f9 del: normalize_empties.simps)
qed

text \<open>A cash draft with a missing currency, an empty duration and a bankroll typed with a
  comma: the first application fills six fields, the second changes nothing.\<close>

theorem C9_compute_metrics_idempotent_witness:
  "compute_metrics iso_lib exact_ops
      [(''format'', PStr ''cash''), (''currency'', PNone), (''start_ts'', PStr ''2025-01-01T23:30:00''),
       (''end_ts'', PStr ''2025-01-02T00:15:00''), (''duration_min'', PStr []),
       (''bankroll_start'', PFloat 100), (''bankroll_end'', PStr ''150,5''),
       (''hands'', PInt 200), (''bb_value'', PFloat (1 / 10)), (''roi'', PNone)]
    = Inr [(''format'', PStr ''cash''), (''currency'', PStr []), (''start_ts'', PStr ''2025-01-01T23:30:00''),
           (''end_ts'', PStr ''2025-01-02T00:15:00''), (''duration_min'', PInt 45),
           (''bankroll_start'', PFloat 100), (''bankroll_end'', PStr ''150,5''),
           (''hands'', PInt 200), (''bb_value'', PFloat (1 / 10)), (''roi'', PStr []),
           (''profit'', PFloat (101 / 2)), (''bb_profit'', PFloat 505),
           (''bb_per_100'', PFloat (505 / 2)), (''tables'', PStr []),
           (''buyin_total'', PStr []), (''prize_total'', PStr [])]
   \<and> compute_metrics iso_lib exact_ops
        [(''format'', PStr ''cash''), (''currency'', PStr []), (''start_ts'', PStr ''2025-01-01T23:30:00''),
         (''end_ts'', PStr ''2025-01-02T00:15:00''), (''duration_min'', PInt 45),
         (''bankroll_start'', PFloat 100), (''bankroll_end'', PStr ''150,5''),
         (''hands'', PInt 200), (''bb_value'', PFloat (1 / 10)), (''roi'', PStr []),
         (''profit'', PFloat (101 / 2)), (''bb_profit'', PFloat 505),
         (''bb_per_100'', PFloat (505 / 2)), (''tables'', PStr []),
         (''buyin_total'', PStr []), (''prize_total'', PStr [])]
    = Inr [(''format'', PStr ''cash''), (''currency'', PStr []), (''start_ts'', PStr ''2025-01-01T23:30:00''),
           (''end_ts'', PStr ''2025-01-02T00:15:00''), (''duration_min'', PInt 45),
           (''bankroll_start'', PFloat 100), (''bankroll_end'', PStr ''150,5''),
           (''hands'', PInt 200), (''bb_value'', PFloat (1 / 10)), (''roi'', PStr []),
           (''profit'', PFloat (101 / 2)), (''bb_profit'', PFloat 505),
           (''bb_per_100'', PFloat (505 / 2)), (''tables'', PStr []),
           (''buyin_total'', PStr []), (''prize_total'', PStr [])]"
proof -
  have run: "compute_metrics iso_lib exact_ops
      [(''format'', PStr ''cash''), (''currency'', PNone), (''start_ts'', PStr ''2025-01-01T23:30:00''),
       (''end_ts'', PStr ''2025-01-02T00:15:00''), (''duration_min'', PStr []),
       (''bankroll_start'', PFloat 100), (''bankroll_end'', PStr ''150,5''),
       (''hands'', PInt 200), (''bb_value'', PFloat (1 / 10)), (''roi'', PNone)]
    = Inr [(''format'', PStr ''cash''), (''currency'', PStr []), (''start_ts'', PStr ''2025-01-01T23:30:00''),
           (''end_ts'', PStr ''2025-01-02T00:15:00''), (''duration_min'', PInt 45),
           (''bankroll_start'', PFloat 100), (''bankroll_end'', PStr ''150,5''),
           (''hands'', PInt 200), (''bb_value'', PFloat (1 / 10)), (''roi'', PStr []),
           (''profit'', PFloat (101 / 2)), (''bb_profit'', PFloat 505),
           (''bb_per_100'', PFloat (505 / 2)), (''tables'', PStr []),
           (''buyin_total'', PStr []), (''prize_total'', PStr [])]"
    by code_simp
  from C9_compute_metrics_idempotent[OF run] run show ?thesis by simp
qed


subsection \<open>Reading a number\<close>





section \<open>Properties of the session lifecycle\<close>

subsection \<open>Starting while a draft exists\<close>

text \<open>
  Claim C5. In every state whose active-session file holds a draft (a dict that is not
  empty), \<open>cmd_start\<close> prints the already-active error, returns 2 and leaves both the
  draft and the stored rows as they were. In particular a second \<open>cmd_start\<close> right after
  a successful one fails so, whatever the clock, the uuid and the answers are.
\<close>

theorem C5_start_when_active:
  "(active_file st = Some draft \<and> draft \<noteq> [] \<longrightarrow>
      cmd_start L now uuid inp st = (UserError AlreadyActive, st) \<and>
      exit_status (fst (cmd_start L now uuid inp st)) = 2) \<and>
   (fst (cmd_start L now uuid inp st) = Ok \<longrightarrow>
      cmd_start L now' uuid' inp' (snd (cmd_start L now uuid inp st)) =
        (UserError AlreadyActive, snd (cmd_start L now uuid inp st)))"
  by (auto simp: cmd_start_def load_active_def save_active_def new_draft_def)

subsection \<open>Ending a session\<close>

lemma end_cash_inputs_map:
  "k \<noteq> ''hands'' \<Longrightarrow> k \<noteq> ''bb_value'' \<Longrightarrow> map_of (end_cash_inputs A inp a) k = map_of a k"
  by (auto simp: end_cash_inputs_def Let_def map_of_dict_set split: option.splits)

lemma end_tourney_inputs_map:
  "k \<noteq> ''buyin_total'' \<Longrightarrow> k \<noteq> ''prize_total'' \<Longrightarrow> map_of (end_tourney_inputs inp a) k = map_of a k"
  by (auto simp: end_tourney_inputs_def map_of_dict_set split: option.splits)

lemma end_note_map:
  "end_note A n a = Inr a' \<Longrightarrow> k \<noteq> ''note'' \<Longrightarrow> map_of a' k = map_of a k"
  by (auto simp: end_note_def Let_def map_of_dict_set split: if_splits pyval.splits)

lemma end_fill_start_ts:
  assumes "end_fill L A now inp fmt active = Inr filled"
  shows "map_of filled ''start_ts'' = map_of active ''start_ts''"
    and "map_of filled ''end_ts'' = Some (PStr (isoformat L now))"
  using assms
  by (auto simp: end_fill_def Let_def map_of_dict_set end_cash_inputs_map end_tourney_inputs_map
           split: sum.splits dest!: end_note_map[where k = "''start_ts''"])

text \<open>Whenever \<open>cmd_end\<close> does not return 0, neither file has changed.\<close>

lemma cmd_end_failure_keeps_store:
  "fst (cmd_end L A now inp st) \<noteq> Ok \<Longrightarrow> snd (cmd_end L A now inp st) = st"
  by (auto simp: cmd_end_def split: option.splits sum.splits if_splits)

text \<open>
  Claim C4. Let \<open>cmd_end\<close> reach the chronological check: there is a draft, its format
  lower-cases to \<open>fmt\<close> and filling in the answers gives \<open>filled\<close>. If the draft's
  \<open>start_ts\<close> parses to \<open>s\<close>, the end stamp parses to \<open>e\<close> and \<open>e \<le> s\<close>, then \<open>cmd_end\<close>
  reports the invalid time range and returns 2; the draft is still in the active-session
  file and no row has been appended.
\<close>

theorem C4_invalid_time_range:
  assumes "load_active st = Some active" and "active \<noteq> []"
      and "val_lower (if truthy A (dict_get active ''format'')
                      then dict_get active ''format'' else PStr []) = Inr fmt"
      and "end_fill L A now inp fmt active = Inr filled"
      and "map_of active ''start_ts'' = Some (PStr start_ts)"
      and "fromisoformat L start_ts = Some s"
      and "fromisoformat L (isoformat L now) = Some e"
      and "e \<le> s"
  shows "cmd_end L A now inp st = (UserError InvalidTimeRange, st) \<and>
         exit_status (fst (cmd_end L A now inp st)) = 2 \<and>
         active_file (snd (cmd_end L A now inp st)) = Some active \<and>
         csv_rows (snd (cmd_end L A now inp st)) = csv_rows st"
proof -
  have "end_not_after_start L filled"
    using end_fill_start_ts[OF assms(4)] assms(5-8)
    by (simp add: end_not_after_start_def)
  then have "cmd_end L A now inp st = (UserError InvalidTimeRange, st)"
    using assms(1-4) by (simp add: cmd_end_def)
  then show ?thesis using assms(1) by (simp add: load_active_def)
qed

text \<open>
  Claim C10. Let \<open>cmd_end\<close> reach the chronological check as above. If the draft's
  \<open>start_ts\<close> is a text that \<open>fromisoformat\<close> rejects, the check finds nothing: the
  outcome is not the invalid-time-range error, and \<open>cmd_end\<close> goes on to
  \<open>compute_metrics\<close>, appending the row and clearing the draft when that returns.
\<close>

theorem C10_unparseable_start_skips_check:
  assumes "load_active st = Some active" and "active \<noteq> []"
      and "val_lower (if truthy A (dict_get active ''format'')
                      then dict_get active ''format'' else PStr []) = Inr fmt"
      and "end_fill L A now inp fmt active = Inr filled"
      and "map_of active ''start_ts'' = Some (PStr start_ts)"
      and "fromisoformat L start_ts = None"
  shows "\<not> end_not_after_start L filled \<and>
         fst (cmd_end L A now inp st) \<noteq> UserError InvalidTimeRange \<and>
         cmd_end L A now inp st =
           (case compute_metrics L A filled of
              Inl err \<Rightarrow> (Raised err, st)
            | Inr session \<Rightarrow> (Ok, clear_active (append_row st session)))"
proof -
  have skip: "\<not> end_not_after_start L filled"
    using end_fill_start_ts[OF assms(4)] assms(5,6)
    by (simp add: end_not_after_start_def split: sum.splits)
  then have run: "cmd_end L A now inp st =
           (case compute_metrics L A filled of
              Inl err \<Rightarrow> (Raised err, st)
            | Inr session \<Rightarrow> (Ok, clear_active (append_row st session)))"
    using assms(1-4) by (simp add: cmd_end_def)
  have "fst (cmd_end L A now inp st) \<noteq> UserError InvalidTimeRange"
    unfolding run by (simp split: sum.splits)
  with skip run show ?thesis by simp
qed

text \<open>Starting twice: the first call writes the example draft, the second is refused and
  the draft is still the first one.\<close>

theorem C5_start_when_active_witness:
  "cmd_start iso_lib 63871457400 ''id-1'' example_start \<lparr>active_file = None, csv_rows = []\<rparr>
     = (Ok, \<lparr>active_file = Some example_draft, csv_rows = []\<rparr>) \<and>
   cmd_start iso_lib 63871460100 ''id-2'' example_start \<lparr>active_file = Some example_draft, csv_rows = []\<rparr>
     = (UserError AlreadyActive, \<lparr>active_file = Some example_draft, csv_rows = []\<rparr>) \<and>
   exit_status (fst (cmd_start iso_lib 63871460100 ''id-2'' example_start
                      \<lparr>active_file = Some example_draft, csv_rows = []\<rparr>)) = 2"
proof -
  have first: "cmd_start iso_lib 63871457400 ''id-1'' example_start \<lparr>active_file = None, csv_rows = []\<rparr>
     = (Ok, \<lparr>active_file = Some example_draft, csv_rows = []\<rparr>)"
    by code_simp
  have draft: "active_file \<lparr>active_file = Some example_draft, csv_rows = []\<rparr> = Some example_draft
      \<and> example_draft \<noteq> []"
    by (simp add: example_draft_def)
  from C5_start_when_active[of "\<lparr>active_file = Some example_draft, csv_rows = []\<rparr>" example_draft
         iso_lib 63871460100 "''id-2''" example_start] draft first
  show ?thesis by blast
qed

text \<open>Ending the example draft in the very second it was started.\<close>

theorem C4_invalid_time_range_witness:
  "cmd_end iso_lib exact_ops 63871457400 example_end \<lparr>active_file = Some example_draft, csv_rows = []\<rparr>
     = (UserError InvalidTimeRange, \<lparr>active_file = Some example_draft, csv_rows = []\<rparr>)"
proof -
  let ?st = "\<lparr>active_file = Some example_draft, csv_rows = []\<rparr>"
  let ?filled = "[(''id'', PStr ''id-1''), (''poker_room'', PStr ''PokerOK''),
      (''format'', PStr ''cash''), (''stake'', PStr ''NL10''),
      (''currency'', PStr ''USD''),
      (''start_ts'', PStr ''2025-01-01T23:30:00''),
      (''end_ts'', PStr ''2025-01-01T23:30:00''),
      (''duration_min'', PStr []), (''bankroll_start'', PFloat 100),
      (''bankroll_end'', PFloat 150), (''profit'', PStr []),
      (''tables'', PStr []), (''note'', PStr ''evening | done''),
      (''hands'', PInt 200), (''bb_value'', PFloat (1 / 10)),
      (''bb_profit'', PStr []), (''bb_per_100'', PStr []),
      (''buyin_total'', PStr []), (''prize_total'', PStr []),
      (''roi'', PStr [])] :: rat session"
  have a1: "load_active ?st = Some example_draft"
    by (simp add: load_active_def)
  have a2: "example_draft \<noteq> []"
    by (simp add: example_draft_def)
  have a3: "val_lower (if truthy exact_ops (dict_get example_draft ''format'')
                      then dict_get example_draft ''format'' else PStr []) = Inr ''cash''"
    by code_simp
  have a4: "end_fill iso_lib exact_ops 63871457400 example_end ''cash'' example_draft = Inr ?filled"
    by code_simp
  have a5: "map_of example_draft ''start_ts'' = Some (PStr ''2025-01-01T23:30:00'')"
    by (simp add: example_draft_def)
  have a6: "fromisoformat iso_lib ''2025-01-01T23:30:00'' = Some 63871457400"
    by code_simp
  have a7: "fromisoformat iso_lib (isoformat iso_lib 63871457400) = Some 63871457400"
    by code_simp
  have a8: "(63871457400::int) \<le> 63871457400"
    by simp
  from C4_invalid_time_range[OF a1 a2 a3 a4 a5 a6 a7 a8] show ?thesis by simp
qed

text \<open>The edited draft, whose start is \<open>last night\<close>, is finalised and stored without
  complaint.\<close>

theorem C10_unparseable_start_skips_check_witness:
  "fromisoformat iso_lib ''last night'' = None \<and>
   cmd_end iso_lib exact_ops 63871460100 example_end
       \<lparr>active_file = Some example_edited_draft, csv_rows = []\<rparr>
     = (Ok, \<lparr>active_file = None,
            csv_rows =
              [[(''id'', PStr ''id-1''), (''poker_room'', PStr ''PokerOK''),
                (''format'', PStr ''cash''), (''stake'', PStr ''NL10''),
                (''currency'', PStr ''USD''), (''start_ts'', PStr ''last night''),
                (''end_ts'', PStr ''2025-01-02T00:15:00''),
                (''duration_min'', PInt 45), (''bankroll_start'', PFloat 100),
                (''bankroll_end'', PFloat 150), (''profit'', PFloat 50),
                (''tables'', PStr []), (''note'', PStr ''evening | done''),
                (''hands'', PInt 200), (''bb_value'', PFloat (1 / 10)),
                (''bb_profit'', PFloat 500), (''bb_per_100'', PFloat 250),
                (''buyin_total'', PStr []), (''prize_total'', PStr []),
                (''roi'', PStr [])]]\<rparr>)"
proof -
  let ?st = "\<lparr>active_file = Some example_edited_draft, csv_rows = []\<rparr>"
  let ?filled = "[(''id'', PStr ''id-1''), (''poker_room'', PStr ''PokerOK''),
      (''format'', PStr ''cash''), (''stake'', PStr ''NL10''),
      (''currency'', PStr ''USD''), (''start_ts'', PStr ''last night''),
      (''end_ts'', PStr ''2025-01-02T00:15:00''),
      (''duration_min'', PInt 45), (''bankroll_start'', PFloat 100),
      (''bankroll_end'', PFloat 150), (''profit'', PStr []),
      (''tables'', PStr []), (''note'', PStr ''evening | done''),
      (''hands'', PInt 200), (''bb_value'', PFloat (1 / 10)),
      (''bb_profit'', PStr []), (''bb_per_100'', PStr []),
      (''buyin_total'', PStr []), (''prize_total'', PStr []),
      (''roi'', PStr [])] :: rat session"
  have a1: "load_active ?st = Some example_edited_draft"
    by (simp add: load_active_def)
  have a2: "example_edited_draft \<noteq> []"
    by code_simp
  have a3: "val_lower (if truthy exact_ops (dict_get example_edited_draft ''format'')
                      then dict_get example_edited_draft ''format'' else PStr []) = Inr ''cash''"
    by code_simp
  have a4: "end_fill iso_lib exact_ops 63871460100 example_end ''cash'' example_edited_draft = Inr ?filled"
    by code_simp
  have a5: "map_of example_edited_draft ''start_ts'' = Some (PStr ''last night'')"
    by code_simp
  have a6: "fromisoformat iso_lib ''last night'' = None"
    by code_simp
  have m: "(case compute_metrics iso_lib exact_ops ?filled of
              Inl err \<Rightarrow> (Raised err, ?st)
            | Inr session \<Rightarrow> (Ok, clear_active (append_row ?st session)))
     = (Ok, \<lparr>active_file = None,
            csv_rows =
              [[(''id'', PStr ''id-1''), (''poker_room'', PStr ''PokerOK''),
                (''format'', PStr ''cash''), (''stake'', PStr ''NL10''),
                (''currency'', PStr ''USD''), (''start_ts'', PStr ''last night''),
                (''end_ts'', PStr ''2025-01-02T00:15:00''),
                (''duration_min'', PInt 45), (''bankroll_start'', PFloat 100),
                (''bankroll_end'', PFloat 150), (''profit'', PFloat 50),
                (''tables'', PStr []), (''note'', PStr ''evening | done''),
                (''hands'', PInt 200), (''bb_value'', PFloat (1 / 10)),
                (''bb_profit'', PFloat 500), (''bb_per_100'', PFloat 250),
                (''buyin_total'', PStr []), (''prize_total'', PStr []),
                (''roi'', PStr [])]]\<rparr>)"
    by code_simp
  from C10_unparseable_start_skips_check[OF a1 a2 a3 a4 a5 a6] m a6 show ?thesis by simp
qed

text \<open>With the duration still empty, as \<open>cmd_start\<close> leaves it, the skipped check is
  followed by \<open>duration_minutes\<close> parsing the same text outside any \<open>try\<close>: the command
  ends with a ValueError and the draft stays.\<close>

lemma cmd_end_unparseable_start_raises:
  "cmd_end iso_lib exact_ops 63871460100 example_end
       \<lparr>active_file = Some (dict_set example_draft ''start_ts'' (PStr ''last night'')), csv_rows = []\<rparr>
     = (Raised ValueError,
        \<lparr>active_file = Some (dict_set example_draft ''start_ts'' (PStr ''last night'')), csv_rows = []\<rparr>)"
  by code_simp



subsection \<open>One-shot logging across midnight\<close>













end
